theory Spec2Isabelle
  imports Complex_Main
begin

section \<open>Strings and JavaScript values\<close>

text \<open>
  The string methods of JavaScript that the code uses: \<^verbatim>\<open>s.startsWith(p)\<close>,
  \<^verbatim>\<open>s.includes(n)\<close>, \<^verbatim>\<open>s.padEnd(k, '0')\<close>, \<^verbatim>\<open>s.substring(0, k)\<close>, and the
  decimal rendering of a non-negative integer inside a template literal.
\<close>

fun startsWith :: "string \<Rightarrow> string \<Rightarrow> bool" where
  "startsWith s [] = True"
| "startsWith [] (p # ps) = False"
| "startsWith (c # cs) (p # ps) = (c = p \<and> startsWith cs ps)"

fun str_includes :: "string \<Rightarrow> string \<Rightarrow> bool" where
  "str_includes [] n = (n = [])"
| "str_includes (c # cs) n = (startsWith (c # cs) n \<or> str_includes cs n)"

definition padEnd :: "string \<Rightarrow> nat \<Rightarrow> char \<Rightarrow> string" where
  "padEnd s k c = s @ replicate (k - length s) c"

definition digit_char :: "nat \<Rightarrow> char" where
  "digit_char d = ''0123456789'' ! d"

fun show_nat :: "nat \<Rightarrow> string" where
  "show_nat n = (if n < 10 then [digit_char n] else show_nat (n div 10) @ [digit_char (n mod 10)])"

declare show_nat.simps [simp del]

definition show_int :: "int \<Rightarrow> string" where
  "show_int i = (if i < 0 then CHR ''-'' # show_nat (nat (- i)) else show_nat (nat i))"

text \<open>
  A thrown value: an \<^verbatim>\<open>Error\<close> object with its class name, the optional \<^verbatim>\<open>code\<close>
  property that ethers attaches (\<^verbatim>\<open>'INSUFFICIENT_FUNDS'\<close>, ...) and its message.
  A function that may throw returns \<open>js_error + 'a\<close>, \<open>Inl\<close> being the throw (for an
  async function, the rejected promise).
\<close>

record js_error =
  name :: string
  code :: "string option"
  message :: string

definition mkError :: "string \<Rightarrow> js_error" where
  "mkError m = \<lparr>name = ''Error'', code = None, message = m\<rparr>"

section \<open>Numbers of JavaScript\<close>

text \<open>
  The amount of a transfer is converted by
  \<^verbatim>\<open>BigInt(Math.floor(parseFloat(amount) * 1_000_000))\<close>, in IEEE 754 double precision.
  A number is NaN, an infinity, or a finite double, kept as the rational it denotes
  (the two zeros are one value here: \<^verbatim>\<open>Math.floor\<close> and \<^verbatim>\<open>BigInt\<close> do not tell them
  apart).
\<close>

datatype number = NaN | PosInfinity | NegInfinity | Finite rat

text \<open>The number of binary digits of a positive integer.\<close>

function bitlen :: "int \<Rightarrow> nat" where
  "bitlen n = (if n \<le> 0 then 0 else Suc (bitlen (n div 2)))"
  by pat_completeness auto
termination
  by (relation "measure nat") auto

declare bitlen.simps [simp del]

text \<open>\<open>ilog2 x\<close> is the integer part of the binary logarithm of a positive rational.\<close>

definition ilog2 :: "rat \<Rightarrow> int" where
  "ilog2 x = (if 1 \<le> x then int (bitlen \<lfloor>x\<rfloor>) - 1
              else - int (bitlen (\<lceil>1 / x\<rceil> - 1)))"

definition pow2 :: "int \<Rightarrow> rat" where
  "pow2 k = (if 0 \<le> k then 2 ^ nat k else 1 / 2 ^ nat (- k))"

definition pow10 :: "int \<Rightarrow> rat" where
  "pow10 k = (if 0 \<le> k then 10 ^ nat k else 1 / 10 ^ nat (- k))"

definition round_half_even :: "rat \<Rightarrow> int" where
  "round_half_even x =
     (let f = \<lfloor>x\<rfloor>; d = x - of_int f
      in if d < 1 / 2 then f else if 1 / 2 < d then f + 1 else if even f then f else f + 1)"

text \<open>
  Rounding a real value to the nearest double, ties to even: the value is \<open>m * 2 ^ e\<close>
  with \<open>m\<close> of at most 53 bits (54 when the rounding carries), the least exponent
  that of the subnormal numbers, and infinity when \<open>m * 2 ^ e\<close> reaches \<open>2 ^ 1024\<close>,
  that is when the bits of \<open>m\<close> and \<open>e\<close> add up to more than 1024.
\<close>

definition to_double :: "rat \<Rightarrow> number" where
  "to_double x =
     (if x = 0 then Finite 0
      else let a = \<bar>x\<bar>; e = max (ilog2 a - 52) (- 1074);
               m = round_half_even (a / pow2 e)
           in if 1024 < int (bitlen m) + e then (if x < 0 then NegInfinity else PosInfinity)
              else Finite (if x < 0 then - (of_int m * pow2 e) else of_int m * pow2 e))"

text \<open>
  \<^verbatim>\<open>parseFloat\<close>: white space is skipped, then the longest prefix that is a decimal
  literal is read: a sign, then \<^verbatim>\<open>Infinity\<close>, or digits with an optional fraction
  and an optional exponent. Strings are ASCII here.
\<close>

definition is_digit :: "char \<Rightarrow> bool" where
  "is_digit c = (c \<in> set ''0123456789'')"

definition digit_of :: "char \<Rightarrow> int" where
  "digit_of c = int (length (takeWhile (\<lambda>d. d \<noteq> c) ''0123456789''))"

definition digits_value :: "string \<Rightarrow> int" where
  "digits_value ds = foldl (\<lambda>v c. 10 * v + digit_of c) 0 ds"

definition is_white :: "char \<Rightarrow> bool" where
  "is_white c = (c \<in> set [CHR 0x09, CHR 0x0A, CHR 0x0B, CHR 0x0C, CHR 0x0D, CHR '' ''])"

definition signed_digits :: "string \<Rightarrow> int" where
  "signed_digits s =
     (case s of
        [] \<Rightarrow> 0
      | c # r \<Rightarrow>
          if c = CHR ''-'' then - digits_value (takeWhile is_digit r)
          else if c = CHR ''+'' then digits_value (takeWhile is_digit r)
          else digits_value (takeWhile is_digit s))"

text \<open>The exponent at the start of a string, 0 when there is none (an \<^verbatim>\<open>e\<close> with no
  digits after it is not part of the literal).\<close>

definition exponent_part :: "string \<Rightarrow> int" where
  "exponent_part s =
     (case s of
        [] \<Rightarrow> 0
      | c # r \<Rightarrow> if c = CHR ''e'' \<or> c = CHR ''E'' then signed_digits r else 0)"

datatype literal = NoLiteral | InfinityLiteral bool | Decimal rat

definition unsigned_literal :: "string \<Rightarrow> literal" where
  "unsigned_literal s =
     (if startsWith s ''Infinity'' then InfinityLiteral False
      else let ip = takeWhile is_digit s; r1 = dropWhile is_digit s;
               fp = (case r1 of
                       [] \<Rightarrow> []
                     | c # r \<Rightarrow> if c = CHR ''.'' then takeWhile is_digit r else []);
               r2 = (case r1 of
                       [] \<Rightarrow> []
                     | c # r \<Rightarrow> if c = CHR ''.'' then dropWhile is_digit r else r1)
           in if ip = [] \<and> fp = [] then NoLiteral
              else Decimal ((of_int (digits_value ip) + of_int (digits_value fp) / 10 ^ length fp)
                            * pow10 (exponent_part r2)))"

text \<open>The decimal literal a string starts with, and its exact value.\<close>

definition str_decimal_literal :: "string \<Rightarrow> literal" where
  "str_decimal_literal s =
     (let t = dropWhile is_white s;
          neg = startsWith t ''-'';
          u = (if startsWith t ''-'' \<or> startsWith t ''+'' then drop 1 t else t)
      in case unsigned_literal u of
           NoLiteral \<Rightarrow> NoLiteral
         | InfinityLiteral b \<Rightarrow> InfinityLiteral neg
         | Decimal v \<Rightarrow> Decimal (if neg then - v else v))"

definition parseFloat :: "string \<Rightarrow> number" where
  "parseFloat s =
     (case str_decimal_literal s of
        NoLiteral \<Rightarrow> NaN
      | InfinityLiteral neg \<Rightarrow> if neg then NegInfinity else PosInfinity
      | Decimal v \<Rightarrow> to_double v)"

text \<open>\<^verbatim>\<open>x * 1_000_000\<close>: the exact product, rounded.\<close>

definition times_million :: "number \<Rightarrow> number" where
  "times_million x =
     (case x of
        NaN \<Rightarrow> NaN
      | PosInfinity \<Rightarrow> PosInfinity
      | NegInfinity \<Rightarrow> NegInfinity
      | Finite v \<Rightarrow> to_double (v * 1000000))"

text \<open>
  \<^verbatim>\<open>BigInt(Math.floor(x))\<close>: \<^verbatim>\<open>Math.floor\<close> keeps NaN and the infinities, on which
  \<^verbatim>\<open>BigInt\<close> throws a RangeError; the floor of a finite double is an integer.
\<close>

definition range_error :: "string \<Rightarrow> js_error" where
  "range_error shown =
     \<lparr>name = ''RangeError'', code = None,
      message = ''The number '' @ shown @
                '' cannot be converted to a BigInt because it is not an integer''\<rparr>"

definition BigInt_floor :: "number \<Rightarrow> js_error + int" where
  "BigInt_floor x =
     (case x of
        NaN \<Rightarrow> Inl (range_error ''NaN'')
      | PosInfinity \<Rightarrow> Inl (range_error ''Infinity'')
      | NegInfinity \<Rightarrow> Inl (range_error ''-Infinity'')
      | Finite v \<Rightarrow> Inr \<lfloor>v\<rfloor>)"

definition toSmallestUnit :: "string \<Rightarrow> js_error + int" where
  "toSmallestUnit amount = BigInt_floor (times_million (parseFloat amount))"

section \<open>The attestation service (wormholeVaa.ts)\<close>

text \<open>
  What \<^verbatim>\<open>fetch(url)\<close> and \<^verbatim>\<open>response.json()\<close> can give: \<^verbatim>\<open>fetch\<close> rejects, or
  resolves to a response with \<^verbatim>\<open>ok\<close>, \<^verbatim>\<open>status\<close>, \<^verbatim>\<open>statusText\<close>; reading
  the body throws (it is not JSON, or it is not an object), or gives an object whose
  \<^verbatim>\<open>vaa\<close> field is absent or a string.
\<close>

datatype json_body = BodyThrows js_error | Body "string option"

record http_response =
  ok :: bool
  status :: nat
  statusText :: string
  body :: json_body

text \<open>
  The two address forms of the lookup. The request records the arguments the URL is
  built from: emitter chain and transaction hash, or emitter chain, emitter address (as
  passed; the URL carries it without 0x, in lower case, padded to 64 digits) and
  sequence number. The base of the URL is fixed by the network of the run.
\<close>

datatype vaa_request =
    ByTxHash nat string
  | BySequence nat string nat

text \<open>
  A transaction receipt of the source chain: its status and its logs. A log is known
  to the code only through \<^verbatim>\<open>parseLog\<close> of the two interfaces it tries, the token
  bridge's and the core contract's: each throws, returns null, or returns the event's
  name and its \<^verbatim>\<open>sequence\<close> argument (a uint64).
\<close>

datatype parse_result = ParseThrows | ParseNull | Parsed string nat

record log =
  bridgeParse :: parse_result
  coreParse :: parse_result

record receipt =
  rstatus :: nat
  logs :: "log list"

text \<open>
  What a run does to the outside, in order: the calls to the two chains, the lookups of
  the attestation service, and the sleeps it completes (in milliseconds).
\<close>

datatype event =
    GetBalance string
  | BalanceOf string
  | Allowance string string
  | Approve string int
  | WaitApprove string
  | TransferTokens string int nat string nat nat
  | WaitTransfer string
  | Lookup vaa_request
  | Sleep rat
  | WaitForTransaction string

text \<open>
  Everything outside the program that a run observes. \<open>w_http i req\<close> is the outcome of
  the HTTP request \<open>req\<close> when \<open>i\<close> lookups were made before it in the run;
  \<open>w_allowance i\<close> is what the \<open>i\<close>-th read of the allowance returns. The other chain
  calls are made at most once in a run. \<open>w_cancel k\<close> says whether the caller or the
  host raises a cancellation signal during the \<open>k\<close>-th sleep of the run.
  \<open>w_formatEther\<close> and \<open>w_formatUnits\<close> are the formatting functions of ethers, which
  only the error messages use.
\<close>

record world =
  w_http :: "nat \<Rightarrow> vaa_request \<Rightarrow> js_error + http_response"
  w_cancel :: "nat \<Rightarrow> bool"
  w_getEvmSigner :: "js_error + string"
  w_getAptosSigner :: "js_error + string"
  w_formatEther :: "int \<Rightarrow> string"
  w_formatUnits :: "int \<Rightarrow> nat \<Rightarrow> string"
  w_getBalance :: "js_error + int"
  w_balanceOf :: "js_error + int"
  w_allowance :: "nat \<Rightarrow> js_error + int"
  w_approve :: "js_error + string"
  w_approveWait :: "js_error + receipt option"
  w_transferTokens :: "js_error + string"
  w_transferWait :: "js_error + receipt option"
  w_waitForTransaction :: "js_error + unit"

type_synonym 'a traced = "(js_error + 'a) \<times> event list"

text \<open>The catch block shared by \<^verbatim>\<open>fetchVaaByTxHash\<close> and \<^verbatim>\<open>fetchVaaBySequence\<close>.\<close>

definition fetch_catch :: "js_error \<Rightarrow> js_error + string option" where
  "fetch_catch e =
     (if str_includes (message e) ''404'' \<or> str_includes (message e) ''not found''
      then Inr None else Inl e)"

text \<open>
  The body of both fetch functions after the URL is built. \<^verbatim>\<open>if (data.vaa)\<close> is
  JavaScript truthiness: an absent field and the empty string both give null.
\<close>

definition fetch_vaa :: "js_error + http_response \<Rightarrow> js_error + string option" where
  "fetch_vaa outcome =
     (case outcome of
        Inl e \<Rightarrow> fetch_catch e
      | Inr response \<Rightarrow>
          if \<not> ok response then
            (if status response = 404 then Inr None
             else fetch_catch (mkError (''Wormhole API error: '' @ show_nat (status response)
                                          @ '' '' @ statusText response)))
          else
            (case body response of
               BodyThrows e \<Rightarrow> fetch_catch e
             | Body None \<Rightarrow> Inr None
             | Body (Some v) \<Rightarrow> if v \<noteq> [] then Inr (Some v) else Inr None))"

definition fetchVaaByTxHash :: "world \<Rightarrow> nat \<Rightarrow> string \<Rightarrow> nat \<Rightarrow> js_error + string option" where
  "fetchVaaByTxHash w i txHash emitterChain = fetch_vaa (w_http w i (ByTxHash emitterChain txHash))"

definition fetchVaaBySequence ::
  "world \<Rightarrow> nat \<Rightarrow> nat \<Rightarrow> nat \<Rightarrow> string \<Rightarrow> js_error + string option" where
  "fetchVaaBySequence w i sequence emitterChain emitterAddress =
     fetch_vaa (w_http w i (BySequence emitterChain emitterAddress sequence))"

text \<open>
  \<^verbatim>\<open>pollVaa\<close>. \<open>maxRetries\<close> is a count and \<open>initialBackoff\<close> a whole number of
  milliseconds; the backoff itself is a rational, since \<^verbatim>\<open>backoff * 1.5\<close> leaves the
  integers (2000, 3000, 4500, 6750, 10125, 15187.5, ...). Below the cap every value is
  the initial one, a whole number below 30000, times a power of 3/2 with fewer than 26
  factors: a dyadic rational of fewer than 53 bits, which the doubles of JavaScript
  compute exactly. Above the cap the minimum is 30000 whatever the rounding.

  One iteration of the loop: the try block either returns the payload (\<^verbatim>\<open>if (vaa)\<close>,
  truthiness) or falls through; a lookup that throws is caught and logged, and falls
  through as well.
\<close>

definition poll_attempt :: "js_error + string option \<Rightarrow> string option" where
  "poll_attempt r =
     (case r of
        Inr (Some vaa) \<Rightarrow> if vaa \<noteq> [] then Some vaa else None
      | Inr None \<Rightarrow> None
      | Inl e \<Rightarrow> None)"

definition timeout_error :: "nat \<Rightarrow> js_error" where
  "timeout_error maxRetries =
     mkError (''Failed to get VAA after '' @ show_nat maxRetries @ '' retries'')"

text \<open>
  The loop keeps \<^verbatim>\<open>retries\<close> and \<^verbatim>\<open>backoff\<close>; the lookup of an iteration is lookup
  number \<open>retries\<close> of the run. After a failed attempt it sleeps for the current backoff
  and raises it, unless the budget is used up. The sleep is a timer that nothing but
  its expiry resolves.
\<close>

function pollVaa_loop ::
  "world \<Rightarrow> nat \<Rightarrow> nat \<Rightarrow> string \<Rightarrow> nat \<Rightarrow> nat \<Rightarrow> rat \<Rightarrow> string traced" where
  "pollVaa_loop w sequence emitterChain emitterAddress maxRetries retries backoff =
     (if retries < maxRetries then
        (case poll_attempt (fetchVaaBySequence w retries sequence emitterChain emitterAddress) of
           Some vaa \<Rightarrow> (Inr vaa, [Lookup (BySequence emitterChain emitterAddress sequence)])
         | None \<Rightarrow>
             if Suc retries < maxRetries then
               (case pollVaa_loop w sequence emitterChain emitterAddress maxRetries (Suc retries)
                       (min (backoff * (3 / 2)) 30000) of
                  (r, t) \<Rightarrow>
                    (r, Lookup (BySequence emitterChain emitterAddress sequence) # Sleep backoff # t))
             else
               (case pollVaa_loop w sequence emitterChain emitterAddress maxRetries (Suc retries)
                       backoff of
                  (r, t) \<Rightarrow> (r, Lookup (BySequence emitterChain emitterAddress sequence) # t)))
      else (Inl (timeout_error maxRetries), []))"
  by pat_completeness auto
termination
  by (relation "measure (\<lambda>(w, s, c, a, maxRetries, retries, b). maxRetries - retries)") auto

declare pollVaa_loop.simps [simp del]

definition pollVaa :: "world \<Rightarrow> nat \<Rightarrow> nat \<Rightarrow> string \<Rightarrow> nat \<Rightarrow> nat \<Rightarrow> string traced" where
  "pollVaa w sequence emitterChain emitterAddress maxRetries initialBackoff =
     pollVaa_loop w sequence emitterChain emitterAddress maxRetries 0 (of_nat initialBackoff)"

section \<open>Sequencing calls\<close>

text \<open>
  A call to the outside is recorded in the trace whether it returns or throws; a throw
  ends the enclosing function, as an exception does.
\<close>

definition call :: "js_error + 'a \<Rightarrow> event \<Rightarrow> 'a traced" where
  "call outcome ev = (outcome, [ev])"

definition throw :: "string \<Rightarrow> 'a traced" where
  "throw m = (Inl (mkError m), [])"

definition bind_tr :: "'a traced \<Rightarrow> ('a \<Rightarrow> 'b traced) \<Rightarrow> 'b traced" where
  "bind_tr m f =
     (case m of
        (Inl e, t) \<Rightarrow> (Inl e, t)
      | (Inr a, t) \<Rightarrow> (case f a of (r, t') \<Rightarrow> (r, t @ t')))"

text \<open>JavaScript truthiness of a value that is null or a string.\<close>

definition truthy :: "string option \<Rightarrow> bool" where
  "truthy v = (case v of None \<Rightarrow> False | Some s \<Rightarrow> s \<noteq> [])"

text \<open>\<^verbatim>\<open>a || b\<close> on such a value and a string.\<close>

definition or_else :: "string option \<Rightarrow> string \<Rightarrow> string" where
  "or_else v d = (case v of None \<Rightarrow> d | Some s \<Rightarrow> if s \<noteq> [] then s else d)"

section \<open>The source transfer (wormholeBase.ts)\<close>

definition tokenBridgeAddress :: string where
  "tokenBridgeAddress = ''0x86F55A04690fd7815A3D802bD587e83eA888B239''"

definition defaultUsdcAddress :: string where
  "defaultUsdcAddress = ''0x036CbD53842c5426634e7929541eC2318f3dCF7e''"

definition aptosChainId :: nat where
  "aptosChainId = 22"

definition baseSepoliaChainId :: nat where
  "baseSepoliaChainId = 30"

text \<open>\<^verbatim>\<open>ethers.parseEther('0.001')\<close>, in wei.\<close>

definition minEthRequired :: int where
  "minEthRequired = 1000000000000000"

text \<open>The light-bulb sign of the messages, U+1F4A1, in UTF-8.\<close>

definition bulb :: string where
  "bulb = [CHR 0xF0, CHR 0x9F, CHR 0x92, CHR 0xA1]"

definition insufficient_eth_message :: "world \<Rightarrow> string \<Rightarrow> int \<Rightarrow> string" where
  "insufficient_eth_message w address ethBalance =
     ''Insufficient ETH for gas fees.\<newline>'' @
     ''  Current balance: '' @ w_formatEther w ethBalance @ '' ETH\<newline>'' @
     ''  Required: ~0.001 ETH minimum\<newline>'' @
     ''  Wallet: '' @ address @ ''\<newline>'' @
     ''\<newline>'' @ bulb @ '' Get Base Sepolia ETH from:\<newline>'' @
     ''  https://www.coinbase.com/faucets/base-ethereum-goerli-faucet\<newline>'' @
     ''  Or: https://faucet.quicknode.com/base/sepolia''"

definition insufficient_usdc_message :: "world \<Rightarrow> string \<Rightarrow> int \<Rightarrow> int \<Rightarrow> string" where
  "insufficient_usdc_message w address balance amountInSmallestUnit =
     ''Insufficient USDC balance.\<newline>'' @
     ''  Current balance: '' @ w_formatUnits w balance 6 @ '' USDC\<newline>'' @
     ''  Required: '' @ w_formatUnits w amountInSmallestUnit 6 @ '' USDC\<newline>'' @
     ''  Wallet: '' @ address @ ''\<newline>'' @
     ''\<newline>'' @ bulb @ '' You need testnet USDC on Base Sepolia to proceed.''"

definition approval_failed_message :: "int \<Rightarrow> int \<Rightarrow> string \<Rightarrow> string" where
  "approval_failed_message allowance amountInSmallestUnit hash =
     ''Approval failed: allowance '' @ show_int allowance @ '' is less than required '' @
       show_int amountInSmallestUnit @ ''.\<newline>'' @
     ''Approval transaction: '' @ hash @ ''\<newline>'' @
     ''This might be a state propagation issue. Try waiting a few seconds and running again.''"

text \<open>
  The re-reads of the allowance after an approval: at most 5, one second apart, ending
  at the first sufficient value. Read number \<open>Suc retries\<close> of the run is the one made
  in the iteration (read 0 came before the approval). The result is the last value read.
\<close>

function allowance_retry :: "world \<Rightarrow> string \<Rightarrow> int \<Rightarrow> nat \<Rightarrow> int \<Rightarrow> int traced" where
  "allowance_retry w address amountInSmallestUnit retries allowance =
     (if retries < 5 then
        (case w_allowance w (Suc retries) of
           Inl e \<Rightarrow> (Inl e, [Allowance address tokenBridgeAddress])
         | Inr a \<Rightarrow>
             if a \<ge> amountInSmallestUnit then (Inr a, [Allowance address tokenBridgeAddress])
             else if Suc retries < 5 then
               (case allowance_retry w address amountInSmallestUnit (Suc retries) a of
                  (r, t) \<Rightarrow> (r, Allowance address tokenBridgeAddress # Sleep 1000 # t))
             else
               (case allowance_retry w address amountInSmallestUnit (Suc retries) a of
                  (r, t) \<Rightarrow> (r, Allowance address tokenBridgeAddress # t)))
      else (Inr allowance, []))"
  by pat_completeness auto
termination
  by (relation "measure (\<lambda>(w, a, m, retries, al). 5 - retries)") auto

declare allowance_retry.simps [simp del]

text \<open>The block "Check and approve if needed".\<close>

definition ensure_allowance :: "world \<Rightarrow> string \<Rightarrow> int \<Rightarrow> unit traced" where
  "ensure_allowance w address amountInSmallestUnit =
     bind_tr (call (w_allowance w 0) (Allowance address tokenBridgeAddress)) (\<lambda>allowance.
       if allowance < amountInSmallestUnit then
         bind_tr (call (w_approve w) (Approve tokenBridgeAddress (amountInSmallestUnit * 2)))
           (\<lambda>hash.
         bind_tr (call (w_approveWait w) (WaitApprove hash)) (\<lambda>approveReceipt.
           case approveReceipt of
             None \<Rightarrow> throw (''Approval transaction failed: '' @ hash)
           | Some r \<Rightarrow>
               if rstatus r \<noteq> 1 then throw (''Approval transaction failed: '' @ hash)
               else
                 bind_tr (Inr (), [Sleep 2000]) (\<lambda>_.
                 bind_tr (allowance_retry w address amountInSmallestUnit 0 allowance)
                   (\<lambda>allowance'.
                   if allowance' < amountInSmallestUnit
                   then throw (approval_failed_message allowance' amountInSmallestUnit hash)
                   else (Inr (), [])))))
       else (Inr (), []))"

text \<open>The recipient as 32 bytes of hex: padded with zeros at the end, or cut.\<close>

definition recipientBytes32 :: "string \<Rightarrow> string" where
  "recipientBytes32 recipientAddress =
     (if startsWith recipientAddress ''0x''
      then take 64 (padEnd (drop 2 recipientAddress) 64 CHR ''0'')
      else take 64 (padEnd recipientAddress 64 CHR ''0''))"

text \<open>
  The search for the sequence number in the receipt. The first loop takes the first log
  that the bridge interface parses as \<^verbatim>\<open>TransferTokens\<close>. The second loop runs when
  the first found nothing; it tries the core interface only on the logs on which the
  bridge interface throws.
\<close>

fun find_TransferTokens :: "log list \<Rightarrow> nat option" where
  "find_TransferTokens [] = None"
| "find_TransferTokens (l # ls) =
     (case bridgeParse l of
        Parsed n s \<Rightarrow> if n = ''TransferTokens'' then Some s else find_TransferTokens ls
      | ParseNull \<Rightarrow> find_TransferTokens ls
      | ParseThrows \<Rightarrow> find_TransferTokens ls)"

fun find_LogMessagePublished :: "log list \<Rightarrow> nat option" where
  "find_LogMessagePublished [] = None"
| "find_LogMessagePublished (l # ls) =
     (case bridgeParse l of
        ParseThrows \<Rightarrow>
          (case coreParse l of
             Parsed n s \<Rightarrow>
               if n = ''LogMessagePublished'' then Some s else find_LogMessagePublished ls
           | ParseNull \<Rightarrow> find_LogMessagePublished ls
           | ParseThrows \<Rightarrow> find_LogMessagePublished ls)
      | ParseNull \<Rightarrow> find_LogMessagePublished ls
      | Parsed n s \<Rightarrow> find_LogMessagePublished ls)"

definition find_sequence :: "log list \<Rightarrow> nat option" where
  "find_sequence ls =
     (case find_TransferTokens ls of
        Some s \<Rightarrow> Some s
      | None \<Rightarrow> find_LogMessagePublished ls)"

record transfer_result =
  txHash :: string
  sequence :: nat

text \<open>
  The call of \<^verbatim>\<open>transferTokens\<close>, the wait for its receipt, and the result: the
  sequence found, or the placeholder 0 when none was.
\<close>

definition submit_transfer :: "world \<Rightarrow> string \<Rightarrow> int \<Rightarrow> string \<Rightarrow> transfer_result traced" where
  "submit_transfer w usdcContractAddress amountInSmallestUnit recipientAddress =
     bind_tr (call (w_transferTokens w)
                (TransferTokens usdcContractAddress amountInSmallestUnit aptosChainId
                   (''0x'' @ recipientBytes32 recipientAddress) 0 0)) (\<lambda>hash.
     bind_tr (call (w_transferWait w) (WaitTransfer hash)) (\<lambda>receipt.
       case receipt of
         None \<Rightarrow> throw (''Transfer transaction failed: '' @ hash)
       | Some r \<Rightarrow>
           if rstatus r \<noteq> 1 then throw (''Transfer transaction failed: '' @ hash)
           else
             (case find_sequence (logs r) of
                None \<Rightarrow> (Inr \<lparr>txHash = hash, sequence = 0\<rparr>, [])
              | Some s \<Rightarrow> (Inr \<lparr>txHash = hash, sequence = s\<rparr>, []))))"

definition transferUsdcViaWormhole ::
  "world \<Rightarrow> string \<Rightarrow> string \<Rightarrow> string \<Rightarrow> string option \<Rightarrow> transfer_result traced" where
  "transferUsdcViaWormhole w address amount recipientAddress usdcAddress =
     (let usdcContractAddress = or_else usdcAddress defaultUsdcAddress
      in case toSmallestUnit amount of
           Inl e \<Rightarrow> (Inl e, [])
         | Inr amountInSmallestUnit \<Rightarrow>
             bind_tr (call (w_getBalance w) (GetBalance address)) (\<lambda>ethBalance.
               if ethBalance < minEthRequired
               then throw (insufficient_eth_message w address ethBalance)
               else
                 bind_tr (call (w_balanceOf w) (BalanceOf address)) (\<lambda>balance.
                   if balance < amountInSmallestUnit
                   then throw (insufficient_usdc_message w address balance amountInSmallestUnit)
                   else
                     bind_tr (ensure_allowance w address amountInSmallestUnit) (\<lambda>_.
                       submit_transfer w usdcContractAddress amountInSmallestUnit
                         recipientAddress))))"


section \<open>Configuration (config.ts)\<close>

record Config =
  baseRpcUrl :: string
  aptosRpcUrl :: string
  baseSponsorPrivateKey :: string
  aptosSponsorPrivateKey :: string
  circleApiKey :: "string option"
  networkType :: string
  aptosTokenBridgeAddress :: "string option"
  aptosUsdcCoinType :: "string option"
  baseUsdcAddress :: "string option"
  baseTokenMessengerAddress :: "string option"
  baseMessageTransmitterAddress :: "string option"
  baseWormholeTokenBridgeAddress :: "string option"

text \<open>\<^verbatim>\<open>process.env\<close> is a map from names to strings; \<^verbatim>\<open>!value\<close> holds for a
  missing name and for the empty string.\<close>

definition getRequiredEnv :: "(string \<rightharpoonup> string) \<Rightarrow> string \<Rightarrow> js_error + string" where
  "getRequiredEnv env key =
     (case env key of
        None \<Rightarrow> Inl (mkError (''Missing required environment variable: '' @ key))
      | Some v \<Rightarrow>
          if v = [] then Inl (mkError (''Missing required environment variable: '' @ key))
          else Inr v)"

definition getOptionalEnv :: "(string \<rightharpoonup> string) \<Rightarrow> string \<Rightarrow> string option" where
  "getOptionalEnv env key = env key"

text \<open>The object \<^verbatim>\<open>config\<close>, built when the module is loaded, field by field.\<close>

definition load_config :: "(string \<rightharpoonup> string) \<Rightarrow> js_error + Config" where
  "load_config env =
     (case getRequiredEnv env ''BASE_RPC_URL'' of Inl e \<Rightarrow> Inl e | Inr v1 \<Rightarrow>
      case getRequiredEnv env ''APTOS_RPC_URL'' of Inl e \<Rightarrow> Inl e | Inr v2 \<Rightarrow>
      case getRequiredEnv env ''BASE_SPONSOR_PRIVATE_KEY'' of Inl e \<Rightarrow> Inl e | Inr v3 \<Rightarrow>
      case getRequiredEnv env ''APTOS_SPONSOR_PRIVATE_KEY'' of Inl e \<Rightarrow> Inl e | Inr v4 \<Rightarrow>
        Inr \<lparr>baseRpcUrl = v1, aptosRpcUrl = v2,
             baseSponsorPrivateKey = v3, aptosSponsorPrivateKey = v4,
             circleApiKey = getOptionalEnv env ''CIRCLE_API_KEY'',
             networkType = or_else (getOptionalEnv env ''NETWORK_TYPE'') ''Testnet'',
             aptosTokenBridgeAddress = getOptionalEnv env ''APTOS_TOKEN_BRIDGE_ADDRESS'',
             aptosUsdcCoinType = getOptionalEnv env ''APTOS_USDC_COIN_TYPE'',
             baseUsdcAddress = getOptionalEnv env ''BASE_USDC_ADDRESS'',
             baseTokenMessengerAddress = getOptionalEnv env ''BASE_TOKEN_MESSENGER_ADDRESS'',
             baseMessageTransmitterAddress =
               getOptionalEnv env ''BASE_MESSAGE_TRANSMITTER_ADDRESS'',
             baseWormholeTokenBridgeAddress =
               getOptionalEnv env ''BASE_WORMHOLE_TOKEN_BRIDGE_ADDRESS''\<rparr>)"

section \<open>The destination completion (aptosIntegration.ts)\<close>

text \<open>
  \<^verbatim>\<open>submitTokenBridgeVaa\<close> takes \<^verbatim>\<open>AptosClient\<close>, \<^verbatim>\<open>Account\<close>,
  \<^verbatim>\<open>TransactionBuilder\<close> and \<^verbatim>\<open>TxnBuilderTypes\<close> from the module
  \<^verbatim>\<open>@aptos-labs/ts-sdk\<close>. That module, the one the signer is built from (the
  repository names its version 1.39.0, and takes \<^verbatim>\<open>Aptos\<close>, \<^verbatim>\<open>Account\<close> and
  \<^verbatim>\<open>Ed25519PrivateKey\<close> from it), has no export \<^verbatim>\<open>TxnBuilderTypes\<close>: the name is
  bound to undefined. The function checks the form of the coin type and then reads
  \<^verbatim>\<open>TxnBuilderTypes.StructTag\<close>, which throws a TypeError. Nothing after that runs: no
  transaction is built, signed or submitted, and no call reaches the destination chain.
\<close>

definition struct_tag_error :: js_error where
  "struct_tag_error =
     \<lparr>name = ''TypeError'', code = None,
      message = ''Cannot read properties of undefined (reading '' @ [CHR 0x27] @
                ''StructTag'' @ [CHR 0x27] @ '')''\<rparr>"

definition submitTokenBridgeVaa :: "string \<Rightarrow> string \<Rightarrow> string \<Rightarrow> string \<Rightarrow> string traced" where
  "submitTokenBridgeVaa vaaBytes coinTypeAddress feeRecipient bridgeAddress =
     (if \<not> str_includes coinTypeAddress ''::''
      then throw ''Coin type must be in format: 0x<address>::<module>::<name>''
      else (Inl struct_tag_error, []))"

section \<open>The orchestrator (transferWormholeOnly.ts)\<close>

record TransferRequest =
  transferAmount :: string
  recipientAddress :: "string option"

record TransferResult =
  success :: bool
  sourceTx :: "string option"
  attestationId :: "string option"
  destinationTx :: "string option"
  error :: "string option"

text \<open>
  The polling loop of the orchestrator for the lookup by transaction hash. It differs
  from \<^verbatim>\<open>pollVaa\<close>: the lookup is not inside a try block, so a lookup that throws
  ends the transfer. The lookup of an iteration is number \<open>Suc retries\<close> of the run,
  lookup 0 being the single attempt before the loop. The result is the payload, or null
  when the budget is used up.
\<close>

function txHash_loop ::
  "world \<Rightarrow> string \<Rightarrow> nat \<Rightarrow> nat \<Rightarrow> nat \<Rightarrow> rat \<Rightarrow> string option traced" where
  "txHash_loop w hash emitterChain maxRetries retries backoff =
     (if retries < maxRetries then
        (case fetchVaaByTxHash w (Suc retries) hash emitterChain of
           Inl e \<Rightarrow> (Inl e, [Lookup (ByTxHash emitterChain hash)])
         | Inr vaa \<Rightarrow>
             if truthy vaa then (Inr vaa, [Lookup (ByTxHash emitterChain hash)])
             else if Suc retries < maxRetries then
               (case txHash_loop w hash emitterChain maxRetries (Suc retries)
                       (min (backoff * (3 / 2)) 30000) of
                  (r, t) \<Rightarrow> (r, Lookup (ByTxHash emitterChain hash) # Sleep backoff # t))
             else
               (case txHash_loop w hash emitterChain maxRetries (Suc retries) backoff of
                  (r, t) \<Rightarrow> (r, Lookup (ByTxHash emitterChain hash) # t)))
      else (Inr None, []))"
  by pat_completeness auto
termination
  by (relation "measure (\<lambda>(w, h, c, maxRetries, retries, b). maxRetries - retries)") auto

declare txHash_loop.simps [simp del]

definition txHash_timeout_message :: "nat \<Rightarrow> string \<Rightarrow> string" where
  "txHash_timeout_message maxRetries hash =
     ''Failed to get VAA after '' @ show_nat maxRetries @ '' retries. Transaction: '' @ hash"

text \<open>Step 2 of the transfer: the payload, by transaction hash when the sequence is 0,
  by sequence number otherwise.\<close>

definition get_vaa :: "world \<Rightarrow> transfer_result \<Rightarrow> nat \<Rightarrow> nat \<Rightarrow> string traced" where
  "get_vaa w transferResult maxRetries initialBackoff =
     (if sequence transferResult = 0 then
        bind_tr (call (fetchVaaByTxHash w 0 (txHash transferResult) baseSepoliaChainId)
                   (Lookup (ByTxHash baseSepoliaChainId (txHash transferResult)))) (\<lambda>vaa.
          if \<not> truthy vaa then
            bind_tr (txHash_loop w (txHash transferResult) baseSepoliaChainId maxRetries 0
                       (of_nat initialBackoff)) (\<lambda>vaa'.
              if \<not> truthy vaa'
              then throw (txHash_timeout_message maxRetries (txHash transferResult))
              else (Inr (or_else vaa' []), []))
          else (Inr (or_else vaa []), []))
      else
        pollVaa w (sequence transferResult) baseSepoliaChainId tokenBridgeAddress maxRetries
          initialBackoff)"

text \<open>Step 3: the check of the destination configuration, the submission, the wait
  for confirmation, and the result of a successful transfer.\<close>

definition missing_config_message :: string where
  "missing_config_message =
     ''Missing Aptos configuration: APTOS_TOKEN_BRIDGE_ADDRESS and '' @
     ''APTOS_USDC_COIN_TYPE required''"

definition complete_transfer ::
  "Config \<Rightarrow> world \<Rightarrow> string \<Rightarrow> string \<Rightarrow> string \<Rightarrow> TransferResult traced" where
  "complete_transfer config w hash vaaHex recipient =
     (if \<not> truthy (aptosTokenBridgeAddress config) \<or> \<not> truthy (aptosUsdcCoinType config) then
        throw missing_config_message
      else
        bind_tr (submitTokenBridgeVaa vaaHex (or_else (aptosUsdcCoinType config) [])
                   recipient (or_else (aptosTokenBridgeAddress config) [])) (\<lambda>destTx.
        bind_tr (call (w_waitForTransaction w) (WaitForTransaction destTx)) (\<lambda>_.
          (Inr \<lparr>success = True, sourceTx = Some hash,
                attestationId = Some (take 40 vaaHex),
                destinationTx = Some destTx, error = None\<rparr>, []))))"

text \<open>The try block: signers, recipient, and the three steps in order.\<close>

definition try_block ::
  "Config \<Rightarrow> world \<Rightarrow> TransferRequest \<Rightarrow> nat \<Rightarrow> nat \<Rightarrow> TransferResult traced" where
  "try_block config w request maxRetries initialBackoff =
     (case w_getEvmSigner w of
        Inl e \<Rightarrow> (Inl e, [])
      | Inr baseAddress \<Rightarrow>
          (case w_getAptosSigner w of
             Inl e \<Rightarrow> (Inl e, [])
           | Inr aptosAddress \<Rightarrow>
               (let recipient = or_else (recipientAddress request) aptosAddress
                in bind_tr (transferUsdcViaWormhole w baseAddress (transferAmount request)
                              recipient None) (\<lambda>transferResult.
                   bind_tr (get_vaa w transferResult maxRetries initialBackoff) (\<lambda>vaaHex.
                     complete_transfer config w (txHash transferResult) vaaHex recipient)))))"

text \<open>
  The catch block. Its first branch builds a message from \<^verbatim>\<open>baseSigner.address\<close>;
  \<^verbatim>\<open>baseSigner\<close> is a \<^verbatim>\<open>const\<close> of the try block and is not in scope in the catch
  block, so evaluating the template throws a ReferenceError out of the function.
  \<^verbatim>\<open>error.message || String(error)\<close> is the message, or the name of the error when
  the message is empty.
\<close>

definition insufficient_funds_error :: "js_error \<Rightarrow> bool" where
  "insufficient_funds_error e =
     (code e = Some ''INSUFFICIENT_FUNDS'' \<or> str_includes (message e) ''insufficient funds'')"

definition catch_block :: "js_error \<Rightarrow> js_error + TransferResult" where
  "catch_block e =
     (if insufficient_funds_error e then
        Inl \<lparr>name = ''ReferenceError'', code = None, message = ''baseSigner is not defined''\<rparr>
      else if str_includes (message e) ''Insufficient USDC'' then
        Inr \<lparr>success = False, sourceTx = None, attestationId = None, destinationTx = None,
             error = Some (message e)\<rparr>
      else
        Inr \<lparr>success = False, sourceTx = None, attestationId = None, destinationTx = None,
             error = Some (if message e \<noteq> [] then message e else name e)\<rparr>)"

definition transferUsdcWithWormholeOnly ::
  "Config \<Rightarrow> world \<Rightarrow> TransferRequest \<Rightarrow> nat \<Rightarrow> nat \<Rightarrow> TransferResult traced" where
  "transferUsdcWithWormholeOnly config w request maxRetries initialBackoff =
     (case try_block config w request maxRetries initialBackoff of
        (Inr result, t) \<Rightarrow> (Inr result, t)
      | (Inl e, t) \<Rightarrow> (catch_block e, t))"

text \<open>
  A run of the program from its environment: the module \<^verbatim>\<open>config\<close> is loaded when
  the orchestrator's module is imported, before anything else runs; a throw there ends
  the program.
\<close>

definition run_transfer ::
  "(string \<rightharpoonup> string) \<Rightarrow> world \<Rightarrow> TransferRequest \<Rightarrow> nat \<Rightarrow> nat \<Rightarrow> TransferResult traced" where
  "run_transfer env w request maxRetries initialBackoff =
     (case load_config env of
        Inl e \<Rightarrow> (Inl e, [])
      | Inr config \<Rightarrow> transferUsdcWithWormholeOnly config w request maxRetries initialBackoff)"

section \<open>Reading traces\<close>

fun lookups :: "event list \<Rightarrow> vaa_request list" where
  "lookups [] = []"
| "lookups (Lookup r # t) = r # lookups t"
| "lookups (e # t) = lookups t"

fun sleeps :: "event list \<Rightarrow> rat list" where
  "sleeps [] = []"
| "sleeps (Sleep d # t) = d # sleeps t"
| "sleeps (e # t) = sleeps t"

fun is_Approve :: "event \<Rightarrow> bool" where
  "is_Approve (Approve a n) = True"
| "is_Approve e = False"

fun is_TransferTokens :: "event \<Rightarrow> bool" where
  "is_TransferTokens (TransferTokens a b c d e f) = True"
| "is_TransferTokens e = False"

fun is_source_call :: "event \<Rightarrow> bool" where
  "is_source_call (GetBalance a) = True"
| "is_source_call (BalanceOf a) = True"
| "is_source_call (Allowance a b) = True"
| "is_source_call (Approve a n) = True"
| "is_source_call (WaitApprove h) = True"
| "is_source_call (TransferTokens a b c d e f) = True"
| "is_source_call (WaitTransfer h) = True"
| "is_source_call e = False"

fun is_destination_call :: "event \<Rightarrow> bool" where
  "is_destination_call (WaitForTransaction h) = True"
| "is_destination_call e = False"

fun is_Sleep :: "event \<Rightarrow> bool" where
  "is_Sleep (Sleep d) = True"
| "is_Sleep e = False"

fun is_Lookup :: "event \<Rightarrow> bool" where
  "is_Lookup (Lookup r) = True"
| "is_Lookup e = False"

fun is_by_sequence :: "vaa_request \<Rightarrow> bool" where
  "is_by_sequence (BySequence c a s) = True"
| "is_by_sequence (ByTxHash c h) = False"

text \<open>The trace of a poll that makes \<open>Suc n\<close> lookups with \<open>n\<close> sleeps between them,
  the first sleep being \<open>b\<close>.\<close>

fun poll_trace :: "vaa_request \<Rightarrow> nat \<Rightarrow> rat \<Rightarrow> event list" where
  "poll_trace req 0 b = [Lookup req]"
| "poll_trace req (Suc n) b = Lookup req # Sleep b # poll_trace req n (min (b * (3 / 2)) 30000)"

fun backoff_seq :: "rat \<Rightarrow> nat \<Rightarrow> rat" where
  "backoff_seq b 0 = b"
| "backoff_seq b (Suc k) = min (backoff_seq b k * (3 / 2)) 30000"


section \<open>Example worlds\<close>

text \<open>The two answers of the attestation service: 404, and a body with a payload.\<close>

definition not_found :: "js_error + http_response" where
  "not_found = Inr \<lparr>ok = False, status = 404, statusText = ''Not Found'', body = Body None\<rparr>"

definition found :: "string \<Rightarrow> js_error + http_response" where
  "found v = Inr \<lparr>ok = True, status = 200, statusText = ''OK'', body = Body (Some v)\<rparr>"

definition never_answers :: "nat \<Rightarrow> vaa_request \<Rightarrow> js_error + http_response" where
  "never_answers i req = not_found"

definition answers_from :: "nat \<Rightarrow> string \<Rightarrow> nat \<Rightarrow> vaa_request \<Rightarrow> js_error + http_response" where
  "answers_from n v i req = (if i < n then not_found else found v)"

definition no_cancel :: "nat \<Rightarrow> bool" where
  "no_cancel k = False"

definition cancel_at :: "nat \<Rightarrow> nat \<Rightarrow> bool" where
  "cancel_at n k = (k = n)"

definition const_allowance :: "int \<Rightarrow> nat \<Rightarrow> js_error + int" where
  "const_allowance a i = Inr a"

definition fmt_ether :: "int \<Rightarrow> string" where
  "fmt_ether i = show_int i"

definition fmt_units :: "int \<Rightarrow> nat \<Rightarrow> string" where
  "fmt_units i d = show_int i"

definition transfer_log :: "nat \<Rightarrow> log" where
  "transfer_log s = \<lparr>bridgeParse = Parsed ''TransferTokens'' s, coreParse = ParseNull\<rparr>"

text \<open>
  A world in which every chain call succeeds: 0.002 ETH and 5 USDC on the source
  account, an allowance of 2 USDC, a transfer whose receipt carries sequence 42, and an
  attestation service that never has the payload.
\<close>

definition example_world :: world where
  "example_world =
     \<lparr>w_http = never_answers, w_cancel = no_cancel,
      w_getEvmSigner = Inr ''0xB0b'', w_getAptosSigner = Inr ''0xA11ce'',
      w_formatEther = fmt_ether, w_formatUnits = fmt_units,
      w_getBalance = Inr 2000000000000000, w_balanceOf = Inr 5000000,
      w_allowance = const_allowance 2000000, w_approve = Inr ''0xA99'',
      w_approveWait = Inr (Some \<lparr>rstatus = 1, logs = []\<rparr>),
      w_transferTokens = Inr ''0x5EED'',
      w_transferWait = Inr (Some \<lparr>rstatus = 1, logs = [transfer_log 42]\<rparr>),
      w_waitForTransaction = Inr ()\<rparr>"

definition example_config :: Config where
  "example_config =
     \<lparr>baseRpcUrl = ''https://sepolia.base.org'',
      aptosRpcUrl = ''https://fullnode.testnet.aptoslabs.com/v1'',
      baseSponsorPrivateKey = ''0x01'', aptosSponsorPrivateKey = ''0x02'',
      circleApiKey = None, networkType = ''Testnet'',
      aptosTokenBridgeAddress = Some ''0x5764'',
      aptosUsdcCoinType = Some ''0x6909::usdc::USDC'',
      baseUsdcAddress = None, baseTokenMessengerAddress = None,
      baseMessageTransmitterAddress = None, baseWormholeTokenBridgeAddress = None\<rparr>"

definition example_request :: TransferRequest where
  "example_request = \<lparr>transferAmount = ''1.0'', recipientAddress = None\<rparr>"

text \<open>The error with which ethers rejects a transaction that the account cannot pay
  the gas for.\<close>

definition gas_error :: js_error where
  "gas_error = \<lparr>name = ''Error'', code = Some ''INSUFFICIENT_FUNDS'',
                 message = ''insufficient funds for intrinsic transaction cost''\<rparr>"

definition receipt_with :: "log list \<Rightarrow> js_error + receipt option" where
  "receipt_with ls = Inr (Some \<lparr>rstatus = 1, logs = ls\<rparr>)"

text \<open>An environment with the four required variables and nothing else.\<close>

definition example_env :: "string \<rightharpoonup> string" where
  "example_env =
     map_of [(''BASE_RPC_URL'', ''https://sepolia.base.org''),
             (''APTOS_RPC_URL'', ''https://fullnode.testnet.aptoslabs.com/v1''),
             (''BASE_SPONSOR_PRIVATE_KEY'', ''0x01''),
             (''APTOS_SPONSOR_PRIVATE_KEY'', ''0x02'')]"

text \<open>A world in which the receipt of the transfer has no logs, and the attestation
  service has the payload from the third lookup on.\<close>

definition fallback_world :: world where
  "fallback_world =
     example_world\<lparr>w_transferWait := receipt_with [], w_http := answers_from 2 ''0xABC''\<rparr>"

section \<open>The attestation poller\<close>

lemma fetch_catch_not_Some: "fetch_catch e \<noteq> Inr (Some v)"
  by (simp add: fetch_catch_def)

lemma fetch_vaa_truthy: "fetch_vaa x = Inr (Some v) \<Longrightarrow> v \<noteq> []"
  by (auto simp: fetch_vaa_def fetch_catch_not_Some
           split: sum.splits if_splits json_body.splits option.splits)

lemma poll_attempt_None: "poll_attempt (Inr None) = None"
  by (simp add: poll_attempt_def)

lemma poll_attempt_Some:
  "fetchVaaBySequence w i s c a = Inr (Some v) \<Longrightarrow>
     poll_attempt (fetchVaaBySequence w i s c a) = Some v"
  using fetch_vaa_truthy[of _ v] by (simp add: poll_attempt_def fetchVaaBySequence_def)

text \<open>The loop when no attempt from \<open>retries\<close> on gives a payload.\<close>

lemma pollVaa_loop_timeout:
  assumes "\<forall>i. retries \<le> i \<and> i < maxRetries \<longrightarrow>
             poll_attempt (fetchVaaBySequence w i s c a) = None"
    and "retries < maxRetries"
  shows "pollVaa_loop w s c a maxRetries retries b =
           (Inl (timeout_error maxRetries),
            poll_trace (BySequence c a s) (maxRetries - Suc retries) b)"
  using assms
proof (induction w s c a maxRetries retries b rule: pollVaa_loop.induct)
  case (1 w s c a maxRetries retries b)
  have none: "poll_attempt (fetchVaaBySequence w retries s c a) = None"
    using "1.prems" by simp
  show ?case
  proof (cases "Suc retries < maxRetries")
    case True
    have "pollVaa_loop w s c a maxRetries (Suc retries) (min (b * (3 / 2)) 30000) =
           (Inl (timeout_error maxRetries),
            poll_trace (BySequence c a s) (maxRetries - Suc (Suc retries))
              (min (b * (3 / 2)) 30000))"
      using "1.IH"(1) "1.prems" none True by simp
    moreover have "maxRetries - Suc retries = Suc (maxRetries - Suc (Suc retries))"
      using True by simp
    ultimately show ?thesis
      using "1.prems"(2) none True by (subst pollVaa_loop.simps) simp
  next
    case False
    then have eq: "maxRetries = Suc retries"
      using "1.prems"(2) by simp
    have "pollVaa_loop w s c a maxRetries (Suc retries) b = (Inl (timeout_error maxRetries), [])"
      using eq by (subst pollVaa_loop.simps) simp
    then show ?thesis
      using "1.prems"(2) none False eq by (subst pollVaa_loop.simps) simp
  qed
qed

text \<open>The loop when attempt \<open>m\<close> is the first to give a payload.\<close>

lemma pollVaa_loop_success:
  assumes "\<forall>i. retries \<le> i \<and> i < m \<longrightarrow> poll_attempt (fetchVaaBySequence w i s c a) = None"
    and "poll_attempt (fetchVaaBySequence w m s c a) = Some v"
    and "retries \<le> m" and "m < maxRetries"
  shows "pollVaa_loop w s c a maxRetries retries b =
           (Inr v, poll_trace (BySequence c a s) (m - retries) b)"
  using assms
proof (induction w s c a maxRetries retries b rule: pollVaa_loop.induct)
  case (1 w s c a maxRetries retries b)
  show ?case
  proof (cases "retries = m")
    case True
    then show ?thesis
      using "1.prems" by (subst pollVaa_loop.simps) simp
  next
    case False
    then have lt: "retries < m"
      using "1.prems"(3) by simp
    have none: "poll_attempt (fetchVaaBySequence w retries s c a) = None"
      using "1.prems"(1) lt by simp
    have sm: "Suc retries < maxRetries"
      using lt "1.prems"(4) by simp
    have "pollVaa_loop w s c a maxRetries (Suc retries) (min (b * (3 / 2)) 30000) =
           (Inr v, poll_trace (BySequence c a s) (m - Suc retries) (min (b * (3 / 2)) 30000))"
      using "1.IH"(1) "1.prems" none sm lt by simp
    moreover have "m - retries = Suc (m - Suc retries)"
      using lt by simp
    ultimately show ?thesis
      using none sm by (subst pollVaa_loop.simps) simp
  qed
qed

lemma lookups_poll_trace: "lookups (poll_trace req n b) = replicate (Suc n) req"
  by (induction n arbitrary: b) simp_all

lemma backoff_seq_shift: "backoff_seq (min (b * (3 / 2)) 30000) k = backoff_seq b (Suc k)"
  by (induction k) simp_all

lemma sleeps_poll_trace: "sleeps (poll_trace req n b) = map (backoff_seq b) [0..<n]"
proof (induction n arbitrary: b)
  case 0
  show ?case by simp
next
  case (Suc n)
  have "map (backoff_seq b) [0..<Suc n] = backoff_seq b 0 # map (backoff_seq b \<circ> Suc) [0..<n]"
    by (simp only: upt_conv_Cons[of 0 "Suc n"] map_Suc_upt[symmetric] list.map map_map)
  then show ?case
    using Suc.IH[of "min (b * (3 / 2)) 30000"] backoff_seq_shift[of b] by (simp del: upt_Suc)
qed

text \<open>From the first raise on, the backoff is the initial value times a power of 3/2,
  capped.\<close>

lemma backoff_seq_closed: "backoff_seq b (Suc k) = min (b * (3 / 2) ^ Suc k) 30000"
proof (induction k)
  case 0
  show ?case by simp
next
  case (Suc k)
  have "backoff_seq b (Suc (Suc k)) = min (min (b * (3 / 2) ^ Suc k) 30000 * (3 / 2)) 30000"
    using Suc by simp
  also have "\<dots> = min (b * (3 / 2) ^ Suc (Suc k)) 30000"
    by (simp add: min_def)
  finally show ?case .
qed

lemma backoff_seq_cases:
  "backoff_seq b k = (if k = 0 then b else min (b * (3 / 2) ^ k) 30000)"
proof (cases k)
  case 0
  then show ?thesis by simp
next
  case (Suc j)
  then show ?thesis
    using backoff_seq_closed[of b j] by (simp del: backoff_seq.simps)
qed

text \<open>
  C2. When every lookup answers "not yet available", \<^verbatim>\<open>pollVaa\<close> with a budget of
  \<open>maxRetries \<ge> 1\<close> makes exactly \<open>maxRetries\<close> lookups, all for the same sequence
  number, and then throws the error "Failed to get VAA after \<open>maxRetries\<close> retries".
\<close>

theorem pollVaa_unavailable_times_out:
  assumes "1 \<le> maxRetries"
    and "\<forall>i. fetchVaaBySequence w i seq emitterChain emitterAddress = Inr None"
  shows "fst (pollVaa w seq emitterChain emitterAddress maxRetries initialBackoff) =
           Inl (timeout_error maxRetries)
         \<and> lookups (snd (pollVaa w seq emitterChain emitterAddress maxRetries initialBackoff)) =
             replicate maxRetries (BySequence emitterChain emitterAddress seq)
         \<and> length (lookups (snd (pollVaa w seq emitterChain emitterAddress maxRetries
                                   initialBackoff))) = maxRetries"
proof -
  have "pollVaa w seq emitterChain emitterAddress maxRetries initialBackoff =
          (Inl (timeout_error maxRetries),
           poll_trace (BySequence emitterChain emitterAddress seq) (maxRetries - Suc 0)
             (of_nat initialBackoff))"
    unfolding pollVaa_def using assms
    by (intro pollVaa_loop_timeout) (simp_all add: poll_attempt_None)
  then show ?thesis
    using assms(1) by (simp add: lookups_poll_trace)
qed

lemma never_answers_None: "fetchVaaBySequence example_world i s c a = Inr None"
  by (simp add: fetchVaaBySequence_def example_world_def never_answers_def not_found_def
        fetch_vaa_def)

theorem pollVaa_unavailable_times_out_witness:
  "(1::nat) \<le> 3
   \<and> (\<forall>i. fetchVaaBySequence example_world i 42 30 tokenBridgeAddress = Inr None)
   \<and> fst (pollVaa example_world 42 30 tokenBridgeAddress 3 2000) = Inl (timeout_error 3)
   \<and> lookups (snd (pollVaa example_world 42 30 tokenBridgeAddress 3 2000)) =
       replicate 3 (BySequence 30 tokenBridgeAddress 42)
   \<and> length (lookups (snd (pollVaa example_world 42 30 tokenBridgeAddress 3 2000))) = 3"
proof -
  have h1: "(1::nat) \<le> 3"
    by simp
  have h2: "\<forall>i. fetchVaaBySequence example_world i 42 30 tokenBridgeAddress = Inr None"
    by (simp add: never_answers_None)
  show ?thesis
    using h1 h2 pollVaa_unavailable_times_out[OF h1 h2, of 2000] by simp
qed

lemma pollVaa_loop_error:
  "fst (pollVaa_loop w s c a maxRetries retries b) = Inl e \<Longrightarrow> e = timeout_error maxRetries"
proof (induction w s c a maxRetries retries b rule: pollVaa_loop.induct)
  case (1 w s c a maxRetries retries b)
  show ?case
  proof (cases "retries < maxRetries")
    case False
    then show ?thesis
      using "1.prems" by (subst (asm) pollVaa_loop.simps) simp
  next
    case lt: True
    show ?thesis
    proof (cases "poll_attempt (fetchVaaBySequence w retries s c a)")
      case (Some v)
      then show ?thesis
        using "1.prems" lt by (subst (asm) pollVaa_loop.simps) simp
    next
      case None
      show ?thesis
      proof (cases "Suc retries < maxRetries")
        case True
        have "fst (pollVaa_loop w s c a maxRetries (Suc retries) (min (b * (3 / 2)) 30000)) = Inl e"
          using "1.prems" lt None True
          by (subst (asm) pollVaa_loop.simps) (simp split: prod.splits)
        then show ?thesis
          using "1.IH"(1)[OF lt None True] by simp
      next
        case False
        have "fst (pollVaa_loop w s c a maxRetries (Suc retries) b) = Inl e"
          using "1.prems" lt None False
          by (subst (asm) pollVaa_loop.simps) (simp split: prod.splits)
        then show ?thesis
          using "1.IH"(2)[OF lt None False] by simp
      qed
    qed
  qed
qed

lemma pollVaa_loop_same_http:
  "w_http w' = w_http w \<Longrightarrow>
     pollVaa_loop w' s c a maxRetries retries b = pollVaa_loop w s c a maxRetries retries b"
proof (induction w s c a maxRetries retries b rule: pollVaa_loop.induct)
  case (1 w s c a maxRetries retries b)
  have f: "fetchVaaBySequence w' retries s c a = fetchVaaBySequence w retries s c a"
    using "1.prems" by (simp add: fetchVaaBySequence_def)
  show ?case
    using "1.IH" "1.prems"
    by (simp only: pollVaa_loop.simps[of w' s c a maxRetries retries b]
          pollVaa_loop.simps[of w s c a maxRetries retries b] f)
       (auto split: option.splits)
qed

text \<open>
  C3, as stated, fails when the initial backoff is above the ceiling: with
  \<open>initialBackoff = 40000\<close>, a budget of 2 and the payload on call 2, the one sleep
  between the two calls lasts 40000 ms, not the capped 30000 ms.
\<close>

theorem pollVaa_first_sleep_uncapped_counterexample:
  "fetchVaaBySequence (example_world\<lparr>w_http := answers_from 1 ''0xABC''\<rparr>) 0 42 30
     tokenBridgeAddress = Inr None
   \<and> fetchVaaBySequence (example_world\<lparr>w_http := answers_from 1 ''0xABC''\<rparr>) 1 42 30
       tokenBridgeAddress = Inr (Some ''0xABC'')
   \<and> fst (pollVaa (example_world\<lparr>w_http := answers_from 1 ''0xABC''\<rparr>) 42 30
            tokenBridgeAddress 2 40000) = Inr ''0xABC''
   \<and> sleeps (snd (pollVaa (example_world\<lparr>w_http := answers_from 1 ''0xABC''\<rparr>) 42 30
                    tokenBridgeAddress 2 40000)) = [40000]
   \<and> sleeps (snd (pollVaa (example_world\<lparr>w_http := answers_from 1 ''0xABC''\<rparr>) 42 30
                    tokenBridgeAddress 2 40000)) \<noteq> [min (40000 * (3 / 2) ^ 0) 30000]"
  by (simp add: pollVaa_def pollVaa_loop.simps poll_attempt_def fetchVaaBySequence_def
        fetch_vaa_def example_world_def answers_from_def not_found_def found_def)

text \<open>
  C3, amended. When the lookups answer "not yet available" on the first \<open>N - 1\<close>
  calls and give a payload on call \<open>N\<close>, with \<open>1 \<le> N \<le> maxRetries\<close>, \<^verbatim>\<open>pollVaa\<close>
  returns that payload after exactly \<open>N\<close> lookups, with one sleep between consecutive
  lookups. The first sleep is \<open>initialBackoff\<close> as given, without a cap; sleep number
  \<open>k \<ge> 1\<close> is \<open>initialBackoff * 1.5 ^ k\<close> capped at 30000 ms. So every sleep is
  capped whenever \<open>initialBackoff \<le> 30000\<close>.
\<close>

theorem pollVaa_payload_on_call_N:
  assumes "1 \<le> N" and "N \<le> maxRetries"
    and "\<forall>i<N - 1. fetchVaaBySequence w i seq emitterChain emitterAddress = Inr None"
    and "fetchVaaBySequence w (N - 1) seq emitterChain emitterAddress = Inr (Some vaa)"
  shows "fst (pollVaa w seq emitterChain emitterAddress maxRetries initialBackoff) = Inr vaa
         \<and> snd (pollVaa w seq emitterChain emitterAddress maxRetries initialBackoff) =
             poll_trace (BySequence emitterChain emitterAddress seq) (N - 1) (of_nat initialBackoff)
         \<and> lookups (snd (pollVaa w seq emitterChain emitterAddress maxRetries initialBackoff)) =
             replicate N (BySequence emitterChain emitterAddress seq)
         \<and> sleeps (snd (pollVaa w seq emitterChain emitterAddress maxRetries initialBackoff)) =
             map (\<lambda>k. if k = 0 then of_nat initialBackoff
                      else min (of_nat initialBackoff * (3 / 2) ^ k) 30000) [0..<N - 1]
         \<and> (initialBackoff \<le> 30000 \<longrightarrow>
              sleeps (snd (pollVaa w seq emitterChain emitterAddress maxRetries initialBackoff)) =
                map (\<lambda>k. min (of_nat initialBackoff * (3 / 2) ^ k) 30000) [0..<N - 1])"
proof -
  have cap: "(if k = 0 then of_nat initialBackoff
              else min (of_nat initialBackoff * (3 / 2) ^ k) 30000) =
             min (of_nat initialBackoff * (3 / 2) ^ k) (30000::rat)"
    if "initialBackoff \<le> 30000" for k
  proof -
    have "(of_nat initialBackoff :: rat) \<le> of_nat 30000"
      using that by (simp only: of_nat_le_iff)
    then show ?thesis
      by (cases "k = 0") simp_all
  qed
  have "pollVaa w seq emitterChain emitterAddress maxRetries initialBackoff =
          (Inr vaa, poll_trace (BySequence emitterChain emitterAddress seq) (N - 1 - 0)
                      (of_nat initialBackoff))"
    unfolding pollVaa_def using assms poll_attempt_Some[OF assms(4)]
    by (intro pollVaa_loop_success) (simp_all add: poll_attempt_None)
  then show ?thesis
    using assms(1) cap by (simp add: lookups_poll_trace sleeps_poll_trace backoff_seq_cases)
qed

theorem pollVaa_payload_on_call_N_witness:
  "(1::nat) \<le> 3 \<and> (3::nat) \<le> 5 \<and> (2000::nat) \<le> 30000
   \<and> fetchVaaBySequence (example_world\<lparr>w_http := answers_from 2 ''0xABC''\<rparr>) 0 42 30
       tokenBridgeAddress = Inr None
   \<and> fetchVaaBySequence (example_world\<lparr>w_http := answers_from 2 ''0xABC''\<rparr>) 1 42 30
       tokenBridgeAddress = Inr None
   \<and> fetchVaaBySequence (example_world\<lparr>w_http := answers_from 2 ''0xABC''\<rparr>) (3 - 1) 42 30
       tokenBridgeAddress = Inr (Some ''0xABC'')
   \<and> fst (pollVaa (example_world\<lparr>w_http := answers_from 2 ''0xABC''\<rparr>) 42 30
            tokenBridgeAddress 5 2000) = Inr ''0xABC''
   \<and> lookups (snd (pollVaa (example_world\<lparr>w_http := answers_from 2 ''0xABC''\<rparr>) 42 30
                     tokenBridgeAddress 5 2000)) = replicate 3 (BySequence 30 tokenBridgeAddress 42)
   \<and> sleeps (snd (pollVaa (example_world\<lparr>w_http := answers_from 2 ''0xABC''\<rparr>) 42 30
                    tokenBridgeAddress 5 2000)) = [2000, 3000]"
proof -
  have h1: "(1::nat) \<le> 3" and h2: "(3::nat) \<le> 5"
    by simp_all
  have h3: "\<forall>i<3 - 1. fetchVaaBySequence (example_world\<lparr>w_http := answers_from 2 ''0xABC''\<rparr>) i 42 30
                   tokenBridgeAddress = Inr None"
    by (simp add: fetchVaaBySequence_def fetch_vaa_def answers_from_def not_found_def)
  have h4: "fetchVaaBySequence (example_world\<lparr>w_http := answers_from 2 ''0xABC''\<rparr>) (3 - 1) 42 30
       tokenBridgeAddress = Inr (Some ''0xABC'')"
    by (simp add: fetchVaaBySequence_def fetch_vaa_def answers_from_def found_def)
  have upt: "[0..<2] = [0, Suc 0]"
    by (simp add: upt_rec)
  note c = pollVaa_payload_on_call_N[OF h1 h2 h3 h4, where initialBackoff = 2000]
  have c1: "fst (pollVaa (example_world\<lparr>w_http := answers_from 2 ''0xABC''\<rparr>) 42 30
            tokenBridgeAddress 5 2000) = Inr ''0xABC''"
    using c by blast
  have c3: "lookups (snd (pollVaa (example_world\<lparr>w_http := answers_from 2 ''0xABC''\<rparr>) 42 30
                     tokenBridgeAddress 5 2000)) = replicate 3 (BySequence 30 tokenBridgeAddress 42)"
    using c by blast
  have "sleeps (snd (pollVaa (example_world\<lparr>w_http := answers_from 2 ''0xABC''\<rparr>) 42 30
                    tokenBridgeAddress 5 2000)) =
          map (\<lambda>k. if k = 0 then of_nat 2000 else min (of_nat 2000 * (3 / 2) ^ k) 30000) [0..<3 - 1]"
    using c by blast
  then have c4: "sleeps (snd (pollVaa (example_world\<lparr>w_http := answers_from 2 ''0xABC''\<rparr>) 42 30
                    tokenBridgeAddress 5 2000)) = [2000, 3000]"
    by (simp add: upt)
  show ?thesis
    using h1 h2 h3 h4 c1 c3 c4 by simp
qed

text \<open>
  C9, as stated, fails: \<^verbatim>\<open>pollVaa\<close> takes no cancellation signal and its sleep is a
  timer that only expiry resolves. With a cancellation raised during the first sleep
  and a service that never answers, the run still completes both sleeps, makes the two
  further lookups and ends with the timeout error.
\<close>

theorem pollVaa_cancellation_counterexample:
  "w_cancel (example_world\<lparr>w_cancel := cancel_at 0\<rparr>) 0
   \<and> pollVaa (example_world\<lparr>w_cancel := cancel_at 0\<rparr>) 42 30 tokenBridgeAddress 3 2000 =
       (Inl (timeout_error 3),
        [Lookup (BySequence 30 tokenBridgeAddress 42), Sleep 2000,
         Lookup (BySequence 30 tokenBridgeAddress 42), Sleep 3000,
         Lookup (BySequence 30 tokenBridgeAddress 42)])"
  by (simp add: pollVaa_def pollVaa_loop.simps poll_attempt_def fetchVaaBySequence_def
        fetch_vaa_def example_world_def never_answers_def not_found_def cancel_at_def)

text \<open>
  C9, amended. \<^verbatim>\<open>pollVaa\<close> has no cancellation: its result and its trace of lookups
  and completed sleeps are the same whatever cancellation signals are raised, and the
  only error it throws is the timeout error "Failed to get VAA after \<open>maxRetries\<close>
  retries".
\<close>

theorem pollVaa_has_no_cancellation:
  "pollVaa (w\<lparr>w_cancel := c\<rparr>) seq emitterChain emitterAddress maxRetries initialBackoff =
     pollVaa w seq emitterChain emitterAddress maxRetries initialBackoff
   \<and> (fst (pollVaa w seq emitterChain emitterAddress maxRetries initialBackoff) = Inl e
        \<longrightarrow> e = timeout_error maxRetries)"
  unfolding pollVaa_def
  using pollVaa_loop_same_http[of "w\<lparr>w_cancel := c\<rparr>" w] pollVaa_loop_error
  by auto

theorem pollVaa_has_no_cancellation_witness:
  "fst (pollVaa example_world 42 30 tokenBridgeAddress 3 2000) = Inl (timeout_error 3)
   \<and> pollVaa (example_world\<lparr>w_cancel := cancel_at 0\<rparr>) 42 30 tokenBridgeAddress 3 2000 =
       pollVaa example_world 42 30 tokenBridgeAddress 3 2000"
proof -
  have h: "fst (pollVaa example_world 42 30 tokenBridgeAddress 3 2000) = Inl (timeout_error 3)"
    by (simp add: pollVaa_def pollVaa_loop.simps poll_attempt_def never_answers_None)
  show ?thesis
    using h pollVaa_has_no_cancellation[where w = example_world and c = "cancel_at 0"
              and seq = 42 and emitterChain = 30 and emitterAddress = tokenBridgeAddress
              and maxRetries = 3 and initialBackoff = 2000 and e = "timeout_error 3"]
    by simp
qed

section \<open>The source transfer\<close>

lemma bind_tr_Inl: "bind_tr (Inl e, t) f = (Inl e, t)"
  by (simp add: bind_tr_def)

lemma bind_tr_Inr: "bind_tr (Inr a, t) f = (fst (f a), t @ snd (f a))"
  by (simp add: bind_tr_def split: prod.splits)

lemma bind_tr_call_Inl: "outcome = Inl e \<Longrightarrow> bind_tr (call outcome ev) f = (Inl e, [ev])"
  by (simp add: call_def bind_tr_Inl)

lemma bind_tr_call_Inr:
  "outcome = Inr a \<Longrightarrow> bind_tr (call outcome ev) f = (fst (f a), ev # snd (f a))"
  by (simp add: call_def bind_tr_Inr)

lemma submit_transfer_trace:
  "snd (submit_transfer w u amt r) = [TransferTokens u amt aptosChainId (''0x'' @ recipientBytes32 r) 0 0]
   \<or> (\<exists>h. snd (submit_transfer w u amt r) =
          [TransferTokens u amt aptosChainId (''0x'' @ recipientBytes32 r) 0 0, WaitTransfer h])"
  by (cases "w_transferTokens w"; cases "w_transferWait w")
     (auto simp: submit_transfer_def bind_tr_call_Inl bind_tr_call_Inr throw_def
           split: option.splits)



text \<open>Every trace of the source transfer starts with the two balance reads, as far as
  it goes.\<close>

lemma transferUsdcViaWormhole_trace_shape:
  "snd (transferUsdcViaWormhole w address amount recipient usdc) = []
   \<or> snd (transferUsdcViaWormhole w address amount recipient usdc) = [GetBalance address]
   \<or> (\<exists>rest. snd (transferUsdcViaWormhole w address amount recipient usdc) =
          GetBalance address # BalanceOf address # rest)"
  by (cases "toSmallestUnit amount"; cases "w_getBalance w"; cases "w_balanceOf w")
     (auto simp: transferUsdcViaWormhole_def bind_tr_call_Inl bind_tr_call_Inr throw_def Let_def)

text \<open>
  The conversion of two ordinary amounts. 1.0 is converted exactly. 8.2 loses one unit:
  the double nearest to 8.2 lies below it, the product with 1000000 rounds to
  8199999.999999999, and the floor is 8199999.
\<close>

lemma units_1_0: "toSmallestUnit ''1.0'' = Inr 1000000"
  by code_simp

lemma units_8_2: "toSmallestUnit ''8.2'' = Inr 8199999"
  by code_simp

lemma literal_8_2: "str_decimal_literal ''8.2'' = Decimal (41 / 5)"
  by code_simp

text \<open>
  Against the converted amount the check does what it should: with enough gas and a
  token balance below the converted amount, the source transfer throws the error
  "Insufficient USDC balance. ...", which differs from every "Insufficient ETH for gas
  fees. ..." error, and the only calls made are the two balance reads.
\<close>

lemma token_balance_check:
  assumes "toSmallestUnit amount = Inr amt"
    and "w_getBalance w = Inr eth" and "minEthRequired \<le> eth"
    and "w_balanceOf w = Inr bal" and "bal < amt"
  shows "transferUsdcViaWormhole w address amount recipient usdc =
           (Inl (mkError (insufficient_usdc_message w address bal amt)),
            [GetBalance address, BalanceOf address])"
    and "startsWith (insufficient_usdc_message w address bal amt) ''Insufficient USDC balance.''"
    and "insufficient_usdc_message w address bal amt \<noteq> insufficient_eth_message w address eth'"
proof -
  show "transferUsdcViaWormhole w address amount recipient usdc =
           (Inl (mkError (insufficient_usdc_message w address bal amt)),
            [GetBalance address, BalanceOf address])"
    using assms
    by (simp add: transferUsdcViaWormhole_def bind_tr_call_Inr throw_def Let_def)
  show "startsWith (insufficient_usdc_message w address bal amt) ''Insufficient USDC balance.''"
    by (simp add: insufficient_usdc_message_def)
  show "insufficient_usdc_message w address bal amt \<noteq> insufficient_eth_message w address eth'"
    by (simp add: insufficient_usdc_message_def insufficient_eth_message_def)
qed

text \<open>
  An approval or a transfer is submitted only after both checks have passed: the amount
  was converted, the gas balance read was at least the minimum, the token balance read
  was at least the converted amount, and the two reads are the first two calls.
\<close>

lemma state_change_after_checks:
  assumes "ev \<in> set (snd (transferUsdcViaWormhole w address amount recipient usdc))"
    and "is_Approve ev \<or> is_TransferTokens ev"
  shows "\<exists>amt eth bal.
           toSmallestUnit amount = Inr amt
           \<and> w_getBalance w = Inr eth \<and> minEthRequired \<le> eth
           \<and> w_balanceOf w = Inr bal \<and> amt \<le> bal
           \<and> take 2 (snd (transferUsdcViaWormhole w address amount recipient usdc)) =
               [GetBalance address, BalanceOf address]"
  using assms
  by (cases "toSmallestUnit amount"; cases "w_getBalance w"; cases "w_balanceOf w")
     (auto simp: transferUsdcViaWormhole_def bind_tr_call_Inl bind_tr_call_Inr throw_def Let_def
           split: if_splits)

text \<open>
  C5. The claim fails on the code at the amount 8.2. The request is for 8.2 USDC,
  that is 8200000 units, and the balance is 8199999 units, below it. The code converts
  the amount to 8199999, so the comparison \<^verbatim>\<open>balance < amountInSmallestUnit\<close> is
  false: no error is thrown, and \<^verbatim>\<open>transferTokens\<close> is submitted, for 8199999 units.
\<close>

theorem truncated_amount_passes_balance_check:
  "str_decimal_literal ''8.2'' = Decimal (41 / 5)
   \<and> (8199999 :: rat) < 41 / 5 * 1000000
   \<and> toSmallestUnit ''8.2'' = Inr 8199999
   \<and> transferUsdcViaWormhole
       (example_world\<lparr>w_balanceOf := Inr 8199999, w_allowance := const_allowance 8199999\<rparr>)
       ''0xB0b'' ''8.2'' ''0xA11ce'' None =
     (Inr \<lparr>txHash = ''0x5EED'', sequence = 42\<rparr>,
      [GetBalance ''0xB0b'', BalanceOf ''0xB0b'', Allowance ''0xB0b'' tokenBridgeAddress,
       TransferTokens defaultUsdcAddress 8199999 aptosChainId
         (''0x'' @ recipientBytes32 ''0xA11ce'') 0 0,
       WaitTransfer ''0x5EED''])"
  by (simp add: literal_8_2 units_8_2 transferUsdcViaWormhole_def example_world_def
        const_allowance_def minEthRequired_def bind_tr_call_Inr ensure_allowance_def
        submit_transfer_def bind_tr_Inr or_else_def Let_def find_sequence_def transfer_log_def)



section \<open>The orchestrator\<close>

lemma snd_bind_tr:
  "snd (bind_tr m f) = snd m @ (case fst m of Inl e \<Rightarrow> [] | Inr a \<Rightarrow> snd (f a))"
  by (cases m; cases "fst m") (auto simp: bind_tr_def split: prod.splits)

lemma fst_bind_tr:
  "fst (bind_tr m f) = (case fst m of Inl e \<Rightarrow> Inl e | Inr a \<Rightarrow> fst (f a))"
  by (cases m; cases "fst m") (auto simp: bind_tr_def split: prod.splits)

lemma set_snd_bind_tr:
  "set (snd (bind_tr m f)) =
     set (snd m) \<union> (case fst m of Inl e \<Rightarrow> {} | Inr a \<Rightarrow> set (snd (f a)))"
  by (simp add: snd_bind_tr split: sum.splits)

lemma set_lookups: "set (lookups t) = {r. Lookup r \<in> set t}"
  by (induction t rule: lookups.induct) auto

lemma lookups_append: "lookups (xs @ ys) = lookups xs @ lookups ys"
  by (induction xs rule: lookups.induct) auto

lemma allowance_retry_events:
  "\<forall>ev \<in> set (snd (allowance_retry w address amt retries al)). is_source_call ev \<or> is_Sleep ev"
proof (induction w address amt retries al rule: allowance_retry.induct)
  case (1 w address amt retries al)
  show ?case
  proof (cases "retries < 5")
    case False
    then show ?thesis
      by (subst allowance_retry.simps) simp
  next
    case lt: True
    show ?thesis
    proof (cases "w_allowance w (Suc retries)")
      case (Inl e)
      then show ?thesis
        using lt by (subst allowance_retry.simps) simp
    next
      case (Inr a)
      show ?thesis
      proof (cases "amt \<le> a")
        case True
        then show ?thesis
          using lt Inr by (subst allowance_retry.simps) simp
      next
        case False
        then show ?thesis
          using lt Inr "1.IH"(1)[OF lt Inr False] "1.IH"(2)[OF lt Inr False]
          by (subst allowance_retry.simps) (auto split: prod.splits)
      qed
    qed
  qed
qed

lemma ensure_allowance_events:
  "\<forall>ev \<in> set (snd (ensure_allowance w address amt)). is_source_call ev \<or> is_Sleep ev"
  by (auto simp: ensure_allowance_def set_snd_bind_tr call_def throw_def
           split: sum.splits option.splits if_splits
           dest: allowance_retry_events[rule_format])

lemma submit_transfer_events:
  "\<forall>ev \<in> set (snd (submit_transfer w u amt r)). is_source_call ev \<or> is_Sleep ev"
  using submit_transfer_trace[of w u amt r] by auto

lemma transferUsdcViaWormhole_events:
  "\<forall>ev \<in> set (snd (transferUsdcViaWormhole w address amount recipient usdc)).
     is_source_call ev \<or> is_Sleep ev"
  by (auto simp: transferUsdcViaWormhole_def set_snd_bind_tr call_def throw_def Let_def
           split: sum.splits if_splits
           dest: ensure_allowance_events[rule_format] submit_transfer_events[rule_format])

lemma txHash_loop_events:
  "\<forall>ev \<in> set (snd (txHash_loop w h c maxRetries retries b)).
     ev = Lookup (ByTxHash c h) \<or> is_Sleep ev"
proof (induction w h c maxRetries retries b rule: txHash_loop.induct)
  case (1 w h c maxRetries retries b)
  show ?case
  proof (cases "retries < maxRetries")
    case False
    then show ?thesis
      by (subst txHash_loop.simps) simp
  next
    case lt: True
    show ?thesis
    proof (cases "fetchVaaByTxHash w (Suc retries) h c")
      case (Inl e)
      then show ?thesis
        using lt by (subst txHash_loop.simps) simp
    next
      case (Inr vaa)
      show ?thesis
      proof (cases "truthy vaa")
        case True
        then show ?thesis
          using lt Inr by (subst txHash_loop.simps) simp
      next
        case False
        then show ?thesis
          using lt Inr "1.IH"(1)[OF lt Inr False] "1.IH"(2)[OF lt Inr False]
          by (subst txHash_loop.simps) (auto split: prod.splits)
      qed
    qed
  qed
qed

lemma pollVaa_loop_events:
  "\<forall>ev \<in> set (snd (pollVaa_loop w s c a maxRetries retries b)).
     ev = Lookup (BySequence c a s) \<or> is_Sleep ev"
proof (induction w s c a maxRetries retries b rule: pollVaa_loop.induct)
  case (1 w s c a maxRetries retries b)
  show ?case
  proof (cases "retries < maxRetries")
    case False
    then show ?thesis
      by (subst pollVaa_loop.simps) simp
  next
    case lt: True
    show ?thesis
    proof (cases "poll_attempt (fetchVaaBySequence w retries s c a)")
      case (Some v)
      then show ?thesis
        using lt by (subst pollVaa_loop.simps) simp
    next
      case None
      then show ?thesis
        using lt "1.IH"(1)[OF lt None] "1.IH"(2)[OF lt None]
        by (subst pollVaa_loop.simps) (auto split: prod.splits)
    qed
  qed
qed

lemma get_vaa_events:
  "\<forall>ev \<in> set (snd (get_vaa w tr maxRetries initialBackoff)). is_Lookup ev \<or> is_Sleep ev"
  by (auto simp: get_vaa_def pollVaa_def set_snd_bind_tr call_def throw_def
           split: sum.splits if_splits
           dest: txHash_loop_events[rule_format] pollVaa_loop_events[rule_format])

lemma get_vaa_zero_events:
  "sequence tr = 0 \<Longrightarrow>
     \<forall>ev \<in> set (snd (get_vaa w tr maxRetries initialBackoff)).
       ev = Lookup (ByTxHash baseSepoliaChainId (txHash tr)) \<or> is_Sleep ev"
  by (auto simp: get_vaa_def set_snd_bind_tr call_def throw_def
           split: sum.splits if_splits
           dest: txHash_loop_events[rule_format])

lemma complete_transfer_events:
  "\<forall>ev \<in> set (snd (complete_transfer config w h vaa recipient)). is_destination_call ev"
  by (auto simp: complete_transfer_def submitTokenBridgeVaa_def set_snd_bind_tr call_def throw_def
           split: sum.splits if_splits)

lemma complete_transfer_missing:
  "\<not> truthy (aptosTokenBridgeAddress config) \<or> \<not> truthy (aptosUsdcCoinType config) \<Longrightarrow>
     complete_transfer config w h vaa recipient = throw missing_config_message"
  by (auto simp: complete_transfer_def)

lemma txHash_loop_success:
  assumes "\<forall>i. retries \<le> i \<and> i < m \<longrightarrow> fetchVaaByTxHash w (Suc i) h c = Inr None"
    and "fetchVaaByTxHash w (Suc m) h c = Inr (Some v)"
    and "retries \<le> m" and "m < maxRetries"
  shows "txHash_loop w h c maxRetries retries b =
           (Inr (Some v), poll_trace (ByTxHash c h) (m - retries) b)"
  using assms
proof (induction w h c maxRetries retries b rule: txHash_loop.induct)
  case (1 w h c maxRetries retries b)
  have tv: "truthy (Some v)"
    using fetch_vaa_truthy[of _ v] "1.prems"(2) by (simp add: truthy_def fetchVaaByTxHash_def)
  show ?case
  proof (cases "retries = m")
    case True
    then show ?thesis
      using "1.prems" tv by (subst txHash_loop.simps) simp
  next
    case False
    then have lt: "retries < m"
      using "1.prems"(3) by simp
    have none: "fetchVaaByTxHash w (Suc retries) h c = Inr None"
      using "1.prems"(1) lt by simp
    have nt: "\<not> truthy None"
      by (simp add: truthy_def)
    have rm: "retries < maxRetries" and sm: "Suc retries < maxRetries"
      using lt "1.prems"(4) by simp_all
    have "txHash_loop w h c maxRetries (Suc retries) (min (b * (3 / 2)) 30000) =
           (Inr (Some v), poll_trace (ByTxHash c h) (m - Suc retries) (min (b * (3 / 2)) 30000))"
      using "1.IH"(1)[OF rm none nt sm] "1.prems" lt by simp
    moreover have "m - retries = Suc (m - Suc retries)"
      using lt by simp
    ultimately show ?thesis
      using none nt rm sm by (subst txHash_loop.simps) simp
  qed
qed

lemma get_vaa_by_txHash:
  assumes "sequence tr = 0" and "1 \<le> N" and "N \<le> Suc maxRetries"
    and "\<forall>i<N - 1. fetchVaaByTxHash w i (txHash tr) baseSepoliaChainId = Inr None"
    and "fetchVaaByTxHash w (N - 1) (txHash tr) baseSepoliaChainId = Inr (Some vaa)"
  shows "get_vaa w tr maxRetries initialBackoff =
           (Inr vaa,
            Lookup (ByTxHash baseSepoliaChainId (txHash tr)) #
            (if N = 1 then []
             else poll_trace (ByTxHash baseSepoliaChainId (txHash tr)) (N - 2)
                    (of_nat initialBackoff)))"
proof (cases "N = 1")
  case True
  have "vaa \<noteq> []"
    using fetch_vaa_truthy[of _ vaa] assms(5) by (simp add: fetchVaaByTxHash_def)
  then show ?thesis
    using assms True by (simp add: get_vaa_def bind_tr_call_Inr truthy_def or_else_def)
next
  case False
  then have N2: "2 \<le> N"
    using assms(2) by simp
  have "vaa \<noteq> []"
    using fetch_vaa_truthy[of _ vaa] assms(5) by (simp add: fetchVaaByTxHash_def)
  have first: "fetchVaaByTxHash w 0 (txHash tr) baseSepoliaChainId = Inr None"
    using assms(4) N2 by simp
  have "txHash_loop w (txHash tr) baseSepoliaChainId maxRetries 0 (of_nat initialBackoff) =
          (Inr (Some vaa),
           poll_trace (ByTxHash baseSepoliaChainId (txHash tr)) (N - 2 - 0) (of_nat initialBackoff))"
  proof (rule txHash_loop_success)
    show "\<forall>i. 0 \<le> i \<and> i < N - 2 \<longrightarrow>
            fetchVaaByTxHash w (Suc i) (txHash tr) baseSepoliaChainId = Inr None"
      using assms(4) N2 by auto
    have "Suc (N - 2) = N - 1"
      using N2 by simp
    then show "fetchVaaByTxHash w (Suc (N - 2)) (txHash tr) baseSepoliaChainId = Inr (Some vaa)"
      using assms(5) by simp
    show "0 \<le> N - 2"
      by simp
    show "N - 2 < maxRetries"
      using assms(3) N2 by simp
  qed
  then show ?thesis
    using assms(1) first False \<open>vaa \<noteq> []\<close>
    by (simp add: get_vaa_def bind_tr_call_Inr bind_tr_Inr truthy_def or_else_def)
qed

lemma source_trace_no_lookups:
  "lookups (snd (transferUsdcViaWormhole w address amount recipient usdc)) = []"
proof -
  have "set (lookups (snd (transferUsdcViaWormhole w address amount recipient usdc))) = {}"
    using transferUsdcViaWormhole_events[of w address amount recipient usdc]
    by (auto simp: set_lookups)
  then show ?thesis
    by simp
qed

text \<open>The definitions that evaluate a run in one of the example worlds.\<close>

lemmas eval_defs =
  transferUsdcWithWormholeOnly_def try_block_def transferUsdcViaWormhole_def
  example_world_def example_request_def example_config_def fallback_world_def
  units_1_0 const_allowance_def minEthRequired_def bind_tr_call_Inr bind_tr_call_Inl
  ensure_allowance_def submit_transfer_def bind_tr_Inr bind_tr_Inl or_else_def Let_def
  find_sequence_def transfer_log_def receipt_with_def get_vaa_def pollVaa_def
  pollVaa_loop.simps txHash_loop.simps poll_attempt_def fetchVaaBySequence_def
  fetchVaaByTxHash_def fetch_vaa_def never_answers_def answers_from_def not_found_def
  found_def truthy_def complete_transfer_def submitTokenBridgeVaa_def throw_def
  catch_block_def insufficient_funds_error_def mkError_def timeout_error_def
  show_nat.simps digit_char_def baseSepoliaChainId_def

lemma fallback_source:
  "transferUsdcViaWormhole fallback_world ''0xB0b'' (transferAmount example_request)
     (or_else (recipientAddress example_request) ''0xA11ce'') None =
   (Inr \<lparr>txHash = ''0x5EED'', sequence = 0\<rparr>,
    [GetBalance ''0xB0b'', BalanceOf ''0xB0b'', Allowance ''0xB0b'' tokenBridgeAddress,
     TransferTokens defaultUsdcAddress 1000000 aptosChainId
       (''0x'' @ recipientBytes32 ''0xA11ce'') 0 0,
     WaitTransfer ''0x5EED''])"
  by (simp add: eval_defs)

text \<open>
  The destination completion always throws, the error of the coin type's form or the
  TypeError, and makes no call; so no run of the orchestrator returns a successful
  result.
\<close>

lemma submitTokenBridgeVaa_throws:
  "isl (fst (submitTokenBridgeVaa vaa coinType recipient bridge))
   \<and> snd (submitTokenBridgeVaa vaa coinType recipient bridge) = []"
  by (simp add: submitTokenBridgeVaa_def throw_def)

lemma complete_transfer_throws:
  "isl (fst (complete_transfer config w h vaa recipient))
   \<and> snd (complete_transfer config w h vaa recipient) = []"
  using submitTokenBridgeVaa_throws[of vaa "or_else (aptosUsdcCoinType config) []" recipient
          "or_else (aptosTokenBridgeAddress config) []"]
  by (cases "fst (submitTokenBridgeVaa vaa (or_else (aptosUsdcCoinType config) []) recipient
                    (or_else (aptosTokenBridgeAddress config) []))")
     (simp_all add: complete_transfer_def throw_def fst_bind_tr snd_bind_tr)

lemma try_block_throws: "isl (fst (try_block config w request maxRetries initialBackoff))"
proof (cases "w_getEvmSigner w")
  case (Inl e)
  then show ?thesis
    by (simp add: try_block_def)
next
  case evm: (Inr baseAddress)
  show ?thesis
  proof (cases "w_getAptosSigner w")
    case (Inl e)
    then show ?thesis
      using evm by (simp add: try_block_def)
  next
    case (Inr aptosAddress)
    have "isl (fst (bind_tr (transferUsdcViaWormhole w baseAddress (transferAmount request)
                              (or_else (recipientAddress request) aptosAddress) None)
                     (\<lambda>transferResult.
                        bind_tr (get_vaa w transferResult maxRetries initialBackoff)
                          (\<lambda>vaaHex. complete_transfer config w (txHash transferResult) vaaHex
                                       (or_else (recipientAddress request) aptosAddress)))))"
      by (cases "fst (transferUsdcViaWormhole w baseAddress (transferAmount request)
                       (or_else (recipientAddress request) aptosAddress) None)")
         (auto simp: fst_bind_tr complete_transfer_throws split: sum.splits)
    then show ?thesis
      using evm Inr by (simp add: try_block_def Let_def)
  qed
qed

lemma never_success:
  assumes "fst (transferUsdcWithWormholeOnly config w request maxRetries initialBackoff) = Inr r"
  shows "\<not> success r"
proof -
  obtain e where "fst (try_block config w request maxRetries initialBackoff) = Inl e"
    using try_block_throws[of config w request maxRetries initialBackoff]
    by (cases "fst (try_block config w request maxRetries initialBackoff)") simp_all
  then have "catch_block e = Inr r"
    using assms
    by (cases "try_block config w request maxRetries initialBackoff")
       (simp add: transferUsdcWithWormholeOnly_def)
  then show ?thesis
    by (auto simp: catch_block_def split: if_splits)
qed

text \<open>
  C6. The claim fails on the code at its last step. The receipt of the source
  transfer has no logs, so the sequence is 0; the attestation is looked up by the
  transaction hash, once and then by the polling loop, and the payload arrives on the
  third lookup. Then the destination completion throws the TypeError, and the result
  is a failure instead of a completed transfer.
\<close>

theorem fallback_by_txHash_does_not_complete:
  "transferUsdcViaWormhole fallback_world ''0xB0b'' (transferAmount example_request)
     (or_else (recipientAddress example_request) ''0xA11ce'') None =
   (Inr \<lparr>txHash = ''0x5EED'', sequence = 0\<rparr>,
    [GetBalance ''0xB0b'', BalanceOf ''0xB0b'', Allowance ''0xB0b'' tokenBridgeAddress,
     TransferTokens defaultUsdcAddress 1000000 aptosChainId
       (''0x'' @ recipientBytes32 ''0xA11ce'') 0 0,
     WaitTransfer ''0x5EED''])
   \<and> get_vaa fallback_world \<lparr>txHash = ''0x5EED'', sequence = 0\<rparr> 5 2000 =
       (Inr ''0xABC'',
        [Lookup (ByTxHash baseSepoliaChainId ''0x5EED''),
         Lookup (ByTxHash baseSepoliaChainId ''0x5EED''), Sleep 2000,
         Lookup (ByTxHash baseSepoliaChainId ''0x5EED'')])
   \<and> transferUsdcWithWormholeOnly example_config fallback_world example_request 5 2000 =
       (Inr \<lparr>success = False, sourceTx = None, attestationId = None, destinationTx = None,
             error = Some (message struct_tag_error)\<rparr>,
        [GetBalance ''0xB0b'', BalanceOf ''0xB0b'', Allowance ''0xB0b'' tokenBridgeAddress,
         TransferTokens defaultUsdcAddress 1000000 aptosChainId
           (''0x'' @ recipientBytes32 ''0xA11ce'') 0 0,
         WaitTransfer ''0x5EED'',
         Lookup (ByTxHash baseSepoliaChainId ''0x5EED''),
         Lookup (ByTxHash baseSepoliaChainId ''0x5EED''), Sleep 2000,
         Lookup (ByTxHash baseSepoliaChainId ''0x5EED'')])"
  by (simp add: eval_defs struct_tag_error_def)

text \<open>
  C1, as stated, fails: in a run whose source transfer is confirmed with transaction
  0x5EED and sequence 42 and whose attestation does not arrive within 30 attempts from
  a backoff of 2 s, the result has \<open>success = False\<close> and the timeout message, and no
  \<open>sourceTx\<close>.
\<close>

theorem timeout_result_lacks_sourceTx_counterexample:
  "fst (transferUsdcViaWormhole example_world ''0xB0b'' ''1.0'' ''0xA11ce'' None) =
     Inr \<lparr>txHash = ''0x5EED'', sequence = 42\<rparr>
   \<and> fst (transferUsdcWithWormholeOnly example_config example_world example_request 30 2000) =
       Inr \<lparr>success = False, sourceTx = None, attestationId = None, destinationTx = None,
            error = Some ''Failed to get VAA after 30 retries''\<rparr>"
  by (simp add: eval_defs)

lemma str_includes_nonempty: "str_includes m (c # cs) \<Longrightarrow> m \<noteq> []"
  by (cases m) simp_all

text \<open>
  C1, amended. When the source transfer succeeded and a later step throws an error
  that the catch block does not classify as insufficient funds, the result is
  \<open>success = False\<close> with the error's message as the reason (the error's name when
  the message is empty), and the fields \<open>sourceTx\<close>, \<open>attestationId\<close> and
  \<open>destinationTx\<close> are absent.
\<close>

theorem later_phase_failure_result:
  assumes "w_getEvmSigner w = Inr baseAddress" and "w_getAptosSigner w = Inr aptosAddress"
    and "fst (transferUsdcViaWormhole w baseAddress (transferAmount request)
                (or_else (recipientAddress request) aptosAddress) None) = Inr tr"
    and "fst (try_block config w request maxRetries initialBackoff) = Inl e"
    and "\<not> insufficient_funds_error e"
  shows "fst (transferUsdcWithWormholeOnly config w request maxRetries initialBackoff) =
           Inr \<lparr>success = False, sourceTx = None, attestationId = None, destinationTx = None,
                error = Some (if message e \<noteq> [] then message e else name e)\<rparr>"
proof (cases "try_block config w request maxRetries initialBackoff")
  case (Pair r t)
  then have "r = Inl e"
    using assms(4) by simp
  then show ?thesis
    using Pair assms(5) str_includes_nonempty[of "message e"]
    by (auto simp: transferUsdcWithWormholeOnly_def catch_block_def)
qed

theorem later_phase_failure_result_witness:
  "w_getEvmSigner example_world = Inr ''0xB0b''
   \<and> w_getAptosSigner example_world = Inr ''0xA11ce''
   \<and> fst (transferUsdcViaWormhole example_world ''0xB0b'' (transferAmount example_request)
             (or_else (recipientAddress example_request) ''0xA11ce'') None) =
       Inr \<lparr>txHash = ''0x5EED'', sequence = 42\<rparr>
   \<and> fst (try_block example_config example_world example_request 30 2000) = Inl (timeout_error 30)
   \<and> \<not> insufficient_funds_error (timeout_error 30)
   \<and> fst (transferUsdcWithWormholeOnly example_config example_world example_request 30 2000) =
       Inr \<lparr>success = False, sourceTx = None, attestationId = None, destinationTx = None,
            error = Some ''Failed to get VAA after 30 retries''\<rparr>"
proof -
  have h1: "w_getEvmSigner example_world = Inr ''0xB0b''"
    and h2: "w_getAptosSigner example_world = Inr ''0xA11ce''"
    by (simp_all add: example_world_def)
  have h3: "fst (transferUsdcViaWormhole example_world ''0xB0b'' (transferAmount example_request)
             (or_else (recipientAddress example_request) ''0xA11ce'') None) =
       Inr \<lparr>txHash = ''0x5EED'', sequence = 42\<rparr>"
    by (simp add: eval_defs)
  have h4: "fst (try_block example_config example_world example_request 30 2000) =
              Inl (timeout_error 30)"
    by (simp add: eval_defs)
  have h5: "\<not> insufficient_funds_error (timeout_error 30)"
    by (simp add: eval_defs)
  have m: "message (timeout_error 30) = ''Failed to get VAA after 30 retries''"
    by (simp add: eval_defs)
  show ?thesis
    using h1 h2 h3 h4 h5 later_phase_failure_result[OF h1 h2 h3 h4 h5] m by simp
qed

text \<open>Whatever step throws it, an error classified as insufficient funds leaves the
  orchestrator as a ReferenceError.\<close>

lemma insufficient_funds_propagates:
  assumes "fst (try_block config w request maxRetries initialBackoff) = Inl e"
    and "insufficient_funds_error e"
  shows "fst (transferUsdcWithWormholeOnly config w request maxRetries initialBackoff) =
           Inl \<lparr>name = ''ReferenceError'', code = None, message = ''baseSigner is not defined''\<rparr>"
  using assms
  by (cases "try_block config w request maxRetries initialBackoff")
     (simp add: transferUsdcWithWormholeOnly_def catch_block_def)

text \<open>
  C4. The claim fails on the code at an error classified as insufficient funds: when
  \<^verbatim>\<open>transferTokens\<close> rejects with the code INSUFFICIENT_FUNDS, the catch block throws
  a ReferenceError, and the orchestrator returns no result.
\<close>

theorem insufficient_funds_error_escapes:
  "insufficient_funds_error gas_error
   \<and> transferUsdcWithWormholeOnly example_config (example_world\<lparr>w_transferTokens := Inl gas_error\<rparr>)
       example_request 30 2000 =
     (Inl \<lparr>name = ''ReferenceError'', code = None, message = ''baseSigner is not defined''\<rparr>,
      [GetBalance ''0xB0b'', BalanceOf ''0xB0b'', Allowance ''0xB0b'' tokenBridgeAddress,
       TransferTokens defaultUsdcAddress 1000000 aptosChainId
         (''0x'' @ recipientBytes32 ''0xA11ce'') 0 0])"
  by (simp add: eval_defs gas_error_def)

lemma destination_call_kind:
  "is_destination_call ev \<Longrightarrow> \<not> is_source_call ev \<and> \<not> is_Sleep ev \<and> \<not> is_Lookup ev"
  by (cases ev) simp_all

lemma source_trace_no_destination:
  "filter is_destination_call (snd (transferUsdcViaWormhole w address amount recipient usdc)) = []"
  using transferUsdcViaWormhole_events[of w address amount recipient usdc]
  by (auto simp: filter_empty_conv dest: destination_call_kind)

lemma get_vaa_no_destination:
  "filter is_destination_call (snd (get_vaa w tr maxRetries initialBackoff)) = []"
  using get_vaa_events[of w tr maxRetries initialBackoff]
  by (auto simp: filter_empty_conv dest: destination_call_kind)

lemma bind_tr_isl: "(\<And>a. isl (fst (f a))) \<Longrightarrow> isl (fst (bind_tr m f))"
  by (cases "fst m") (simp_all add: fst_bind_tr)

lemma bind_tr_filter:
  "filter P (snd m) = [] \<Longrightarrow> (\<And>a. filter P (snd (f a)) = []) \<Longrightarrow>
     filter P (snd (bind_tr m f)) = []"
  by (cases "fst m") (simp_all add: snd_bind_tr)

lemma try_block_missing_config:
  assumes "\<not> truthy (aptosTokenBridgeAddress config) \<or> \<not> truthy (aptosUsdcCoinType config)"
  shows "filter is_destination_call (snd (try_block config w request maxRetries initialBackoff)) = []"
    and "isl (fst (try_block config w request maxRetries initialBackoff))"
proof -
  have ct: "complete_transfer config w h vaa recipient = (Inl (mkError missing_config_message), [])"
    for h vaa recipient
    using complete_transfer_missing[OF assms] by (simp add: throw_def)
  show "filter is_destination_call (snd (try_block config w request maxRetries initialBackoff)) = []"
  proof (cases "w_getEvmSigner w")
    case (Inl e)
    then show ?thesis by (simp add: try_block_def)
  next
    case evm: (Inr baseAddress)
    show ?thesis
    proof (cases "w_getAptosSigner w")
      case (Inl e)
      then show ?thesis using evm by (simp add: try_block_def)
    next
      case (Inr aptosAddress)
      have "filter is_destination_call
              (snd (bind_tr (transferUsdcViaWormhole w baseAddress (transferAmount request)
                              (or_else (recipientAddress request) aptosAddress) None)
                     (\<lambda>transferResult.
                        bind_tr (get_vaa w transferResult maxRetries initialBackoff)
                          (\<lambda>vaaHex. complete_transfer config w (txHash transferResult) vaaHex
                                       (or_else (recipientAddress request) aptosAddress))))) = []"
        by (intro bind_tr_filter source_trace_no_destination get_vaa_no_destination)
           (simp add: ct)
      then show ?thesis
        using evm Inr by (simp add: try_block_def Let_def)
    qed
  qed
  show "isl (fst (try_block config w request maxRetries initialBackoff))"
  proof (cases "w_getEvmSigner w")
    case (Inl e)
    then show ?thesis by (simp add: try_block_def)
  next
    case evm: (Inr baseAddress)
    show ?thesis
    proof (cases "w_getAptosSigner w")
      case (Inl e)
      then show ?thesis using evm by (simp add: try_block_def)
    next
      case (Inr aptosAddress)
      have "isl (fst (bind_tr (transferUsdcViaWormhole w baseAddress (transferAmount request)
                              (or_else (recipientAddress request) aptosAddress) None)
                     (\<lambda>transferResult.
                        bind_tr (get_vaa w transferResult maxRetries initialBackoff)
                          (\<lambda>vaaHex. complete_transfer config w (txHash transferResult) vaaHex
                                       (or_else (recipientAddress request) aptosAddress)))))"
        by (intro bind_tr_isl) (simp add: ct)
      then show ?thesis
        using evm Inr by (simp add: try_block_def Let_def)
    qed
  qed
qed

lemma orchestrator_trace: 
  "snd (transferUsdcWithWormholeOnly config w request maxRetries initialBackoff) =
     snd (try_block config w request maxRetries initialBackoff)"
  by (cases "try_block config w request maxRetries initialBackoff"; 
      cases "fst (try_block config w request maxRetries initialBackoff)")
     (auto simp: transferUsdcWithWormholeOnly_def)

lemma catch_block_not_success: "catch_block e = Inr r \<Longrightarrow> \<not> success r"
  by (auto simp: catch_block_def split: if_splits)

lemma load_config_missing:
  assumes "k \<in> {''BASE_RPC_URL'', ''APTOS_RPC_URL'', ''BASE_SPONSOR_PRIVATE_KEY'',
                  ''APTOS_SPONSOR_PRIVATE_KEY''}"
    and "\<not> truthy (env k)"
  shows "isl (load_config env)"
  using assms
  by (auto simp: load_config_def getRequiredEnv_def truthy_def split: option.splits sum.splits)

lemma missing_config_caught:
  "catch_block (mkError missing_config_message) =
     Inr \<lparr>success = False, sourceTx = None, attestationId = None, destinationTx = None,
          error = Some missing_config_message\<rparr>"
  by (simp add: catch_block_def insufficient_funds_error_def mkError_def missing_config_message_def)

text \<open>
  C8, as stated, fails for the two destination-side values: with the four required
  variables set and neither the bridge address nor the coin type, the configuration
  loads, the source transfer is submitted and confirmed and the attestation is looked
  up, and only then the transfer fails with the missing-configuration message.
\<close>

theorem missing_destination_config_counterexample:
  "load_config example_env =
     Inr (example_config\<lparr>aptosTokenBridgeAddress := None, aptosUsdcCoinType := None\<rparr>)
   \<and> run_transfer example_env (example_world\<lparr>w_http := answers_from 0 ''0xABC''\<rparr>)
       example_request 30 2000 =
     (Inr \<lparr>success = False, sourceTx = None, attestationId = None, destinationTx = None,
           error = Some missing_config_message\<rparr>,
      [GetBalance ''0xB0b'', BalanceOf ''0xB0b'', Allowance ''0xB0b'' tokenBridgeAddress,
       TransferTokens defaultUsdcAddress 1000000 aptosChainId
         (''0x'' @ recipientBytes32 ''0xA11ce'') 0 0,
       WaitTransfer ''0x5EED'',
       Lookup (BySequence baseSepoliaChainId tokenBridgeAddress 42)])"
  by (simp add: run_transfer_def load_config_def getRequiredEnv_def getOptionalEnv_def
        example_env_def eval_defs missing_config_message_def)

text \<open>
  C8, amended. When one of the four required variables (the two RPC endpoints and the
  two sponsor keys) is missing or empty, loading the configuration throws and no call
  is made at all. When the destination-side bridge address or coin type is missing, no
  destination-chain call is made and the transfer never succeeds; but the check comes
  after the source transfer and the attestation retrieval, and when those two succeed
  the result is the failure "Missing Aptos configuration: ...", with the calls of both
  in the trace.
\<close>

theorem configuration_checks:
  "(k \<in> {''BASE_RPC_URL'', ''APTOS_RPC_URL'', ''BASE_SPONSOR_PRIVATE_KEY'',
          ''APTOS_SPONSOR_PRIVATE_KEY''} \<and> \<not> truthy (env k) \<longrightarrow>
      isl (fst (run_transfer env w request maxRetries initialBackoff))
      \<and> snd (run_transfer env w request maxRetries initialBackoff) = [])
   \<and> (\<not> truthy (aptosTokenBridgeAddress config) \<or> \<not> truthy (aptosUsdcCoinType config) \<longrightarrow>
        filter is_destination_call
          (snd (transferUsdcWithWormholeOnly config w' request' maxRetries' initialBackoff')) = []
        \<and> (fst (transferUsdcWithWormholeOnly config w' request' maxRetries' initialBackoff') = Inr r
             \<longrightarrow> \<not> success r)
        \<and> (w_getEvmSigner w' = Inr baseAddress \<and> w_getAptosSigner w' = Inr aptosAddress
            \<and> transferUsdcViaWormhole w' baseAddress (transferAmount request')
                 (or_else (recipientAddress request') aptosAddress) None = (Inr tr, t1)
            \<and> get_vaa w' tr maxRetries' initialBackoff' = (Inr vaa, t2) \<longrightarrow>
            transferUsdcWithWormholeOnly config w' request' maxRetries' initialBackoff' =
              (Inr \<lparr>success = False, sourceTx = None, attestationId = None,
                    destinationTx = None, error = Some missing_config_message\<rparr>, t1 @ t2)))"
proof (intro conjI impI)
  assume h: "k \<in> {''BASE_RPC_URL'', ''APTOS_RPC_URL'', ''BASE_SPONSOR_PRIVATE_KEY'',
                   ''APTOS_SPONSOR_PRIVATE_KEY''} \<and> \<not> truthy (env k)"
  have l: "isl (load_config env)"
    using load_config_missing[of k env] h by simp
  show "isl (fst (run_transfer env w request maxRetries initialBackoff))"
    using l by (cases "load_config env") (simp_all add: run_transfer_def)
  show "snd (run_transfer env w request maxRetries initialBackoff) = []"
    using l by (cases "load_config env") (simp_all add: run_transfer_def)
next
  assume cfg: "\<not> truthy (aptosTokenBridgeAddress config) \<or> \<not> truthy (aptosUsdcCoinType config)"
  show "filter is_destination_call
          (snd (transferUsdcWithWormholeOnly config w' request' maxRetries' initialBackoff')) = []"
    using try_block_missing_config(1)[OF cfg] by (simp add: orchestrator_trace)
next
  assume cfg: "\<not> truthy (aptosTokenBridgeAddress config) \<or> \<not> truthy (aptosUsdcCoinType config)"
    and res: "fst (transferUsdcWithWormholeOnly config w' request' maxRetries' initialBackoff') =
                Inr r"
  obtain e where e: "fst (try_block config w' request' maxRetries' initialBackoff') = Inl e"
    using try_block_missing_config(2)[OF cfg, of w' request' maxRetries' initialBackoff']
    by (cases "fst (try_block config w' request' maxRetries' initialBackoff')") simp_all
  then have "catch_block e = Inr r"
    using res
    by (cases "try_block config w' request' maxRetries' initialBackoff'")
       (simp add: transferUsdcWithWormholeOnly_def)
  then show "\<not> success r"
    by (rule catch_block_not_success)
next
  assume cfg: "\<not> truthy (aptosTokenBridgeAddress config) \<or> \<not> truthy (aptosUsdcCoinType config)"
    and run: "w_getEvmSigner w' = Inr baseAddress \<and> w_getAptosSigner w' = Inr aptosAddress
            \<and> transferUsdcViaWormhole w' baseAddress (transferAmount request')
                 (or_else (recipientAddress request') aptosAddress) None = (Inr tr, t1)
            \<and> get_vaa w' tr maxRetries' initialBackoff' = (Inr vaa, t2)"
  have "try_block config w' request' maxRetries' initialBackoff' =
          (Inl (mkError missing_config_message), t1 @ t2)"
    using run
    by (simp add: try_block_def Let_def bind_tr_Inr complete_transfer_missing[OF cfg] throw_def)
  then show "transferUsdcWithWormholeOnly config w' request' maxRetries' initialBackoff' =
              (Inr \<lparr>success = False, sourceTx = None, attestationId = None,
                    destinationTx = None, error = Some missing_config_message\<rparr>, t1 @ t2)"
    by (simp add: transferUsdcWithWormholeOnly_def missing_config_caught)
qed

theorem configuration_checks_witness:
  "''APTOS_RPC_URL'' \<in> {''BASE_RPC_URL'', ''APTOS_RPC_URL'', ''BASE_SPONSOR_PRIVATE_KEY'',
                          ''APTOS_SPONSOR_PRIVATE_KEY''}
   \<and> \<not> truthy ((example_env(''APTOS_RPC_URL'' := None)) ''APTOS_RPC_URL'')
   \<and> isl (fst (run_transfer (example_env(''APTOS_RPC_URL'' := None)) example_world
                 example_request 30 2000))
   \<and> snd (run_transfer (example_env(''APTOS_RPC_URL'' := None)) example_world
            example_request 30 2000) = []
   \<and> \<not> truthy (aptosTokenBridgeAddress (example_config\<lparr>aptosTokenBridgeAddress := None\<rparr>))
   \<and> w_getEvmSigner (example_world\<lparr>w_http := answers_from 0 ''0xABC''\<rparr>) = Inr ''0xB0b''
   \<and> w_getAptosSigner (example_world\<lparr>w_http := answers_from 0 ''0xABC''\<rparr>) = Inr ''0xA11ce''
   \<and> transferUsdcViaWormhole (example_world\<lparr>w_http := answers_from 0 ''0xABC''\<rparr>) ''0xB0b''
        (transferAmount example_request)
        (or_else (recipientAddress example_request) ''0xA11ce'') None =
      (Inr \<lparr>txHash = ''0x5EED'', sequence = 42\<rparr>,
       [GetBalance ''0xB0b'', BalanceOf ''0xB0b'', Allowance ''0xB0b'' tokenBridgeAddress,
        TransferTokens defaultUsdcAddress 1000000 aptosChainId
          (''0x'' @ recipientBytes32 ''0xA11ce'') 0 0,
        WaitTransfer ''0x5EED''])
   \<and> get_vaa (example_world\<lparr>w_http := answers_from 0 ''0xABC''\<rparr>)
        \<lparr>txHash = ''0x5EED'', sequence = 42\<rparr> 30 2000 =
      (Inr ''0xABC'', [Lookup (BySequence baseSepoliaChainId tokenBridgeAddress 42)])
   \<and> transferUsdcWithWormholeOnly (example_config\<lparr>aptosTokenBridgeAddress := None\<rparr>)
        (example_world\<lparr>w_http := answers_from 0 ''0xABC''\<rparr>) example_request 30 2000 =
      (Inr \<lparr>success = False, sourceTx = None, attestationId = None, destinationTx = None,
            error = Some missing_config_message\<rparr>,
       [GetBalance ''0xB0b'', BalanceOf ''0xB0b'', Allowance ''0xB0b'' tokenBridgeAddress,
        TransferTokens defaultUsdcAddress 1000000 aptosChainId
          (''0x'' @ recipientBytes32 ''0xA11ce'') 0 0,
        WaitTransfer ''0x5EED''] @
       [Lookup (BySequence baseSepoliaChainId tokenBridgeAddress 42)])
   \<and> filter is_destination_call
        (snd (transferUsdcWithWormholeOnly (example_config\<lparr>aptosTokenBridgeAddress := None\<rparr>)
                (example_world\<lparr>w_http := answers_from 0 ''0xABC''\<rparr>) example_request 30 2000)) = []
   \<and> \<not> success \<lparr>success = False, sourceTx = None, attestationId = None, destinationTx = None,
                  error = Some missing_config_message\<rparr>"
proof -
  have hk: "''APTOS_RPC_URL'' \<in> {''BASE_RPC_URL'', ''APTOS_RPC_URL'', ''BASE_SPONSOR_PRIVATE_KEY'',
                          ''APTOS_SPONSOR_PRIVATE_KEY''}"
    by simp
  have ht: "\<not> truthy ((example_env(''APTOS_RPC_URL'' := None)) ''APTOS_RPC_URL'')"
    by (simp add: truthy_def)
  have hc: "\<not> truthy (aptosTokenBridgeAddress (example_config\<lparr>aptosTokenBridgeAddress := None\<rparr>))"
    by (simp add: truthy_def)
  have s1: "w_getEvmSigner (example_world\<lparr>w_http := answers_from 0 ''0xABC''\<rparr>) = Inr ''0xB0b''"
    and s2: "w_getAptosSigner (example_world\<lparr>w_http := answers_from 0 ''0xABC''\<rparr>) =
               Inr ''0xA11ce''"
    by (simp_all add: example_world_def)
  have s3: "transferUsdcViaWormhole (example_world\<lparr>w_http := answers_from 0 ''0xABC''\<rparr>) ''0xB0b''
        (transferAmount example_request)
        (or_else (recipientAddress example_request) ''0xA11ce'') None =
      (Inr \<lparr>txHash = ''0x5EED'', sequence = 42\<rparr>,
       [GetBalance ''0xB0b'', BalanceOf ''0xB0b'', Allowance ''0xB0b'' tokenBridgeAddress,
        TransferTokens defaultUsdcAddress 1000000 aptosChainId
          (''0x'' @ recipientBytes32 ''0xA11ce'') 0 0,
        WaitTransfer ''0x5EED''])"
    by (simp add: eval_defs)
  have s4: "get_vaa (example_world\<lparr>w_http := answers_from 0 ''0xABC''\<rparr>)
        \<lparr>txHash = ''0x5EED'', sequence = 42\<rparr> 30 2000 =
      (Inr ''0xABC'', [Lookup (BySequence baseSepoliaChainId tokenBridgeAddress 42)])"
    by (simp add: eval_defs)
  note T = configuration_checks[where k = "''APTOS_RPC_URL''"
      and env = "example_env(''APTOS_RPC_URL'' := None)" and w = example_world
      and request = example_request and maxRetries = 30 and initialBackoff = 2000
      and config = "example_config\<lparr>aptosTokenBridgeAddress := None\<rparr>"
      and w' = "example_world\<lparr>w_http := answers_from 0 ''0xABC''\<rparr>"
      and request' = example_request and maxRetries' = 30 and initialBackoff' = 2000
      and baseAddress = "''0xB0b''" and aptosAddress = "''0xA11ce''"
      and tr = "\<lparr>txHash = ''0x5EED'', sequence = 42\<rparr>"
      and ?t1.0 = "[GetBalance ''0xB0b'', BalanceOf ''0xB0b'', Allowance ''0xB0b'' tokenBridgeAddress,
        TransferTokens defaultUsdcAddress 1000000 aptosChainId
          (''0x'' @ recipientBytes32 ''0xA11ce'') 0 0,
        WaitTransfer ''0x5EED'']"
      and vaa = "''0xABC''"
      and ?t2.0 = "[Lookup (BySequence baseSepoliaChainId tokenBridgeAddress 42)]"
      and r = "\<lparr>success = False, sourceTx = None, attestationId = None, destinationTx = None,
                  error = Some missing_config_message\<rparr>"]
  note T1 = T[THEN conjunct1, THEN mp, OF conjI[OF hk ht]]
  note T2 = T[THEN conjunct2, THEN mp, OF disjI1[OF hc]]
  note T2a = T2[THEN conjunct1]
  note T2c = T2[THEN conjunct2, THEN conjunct2, THEN mp, OF conjI[OF s1 conjI[OF s2 conjI[OF s3 s4]]]]
  have res: "fst (transferUsdcWithWormholeOnly (example_config\<lparr>aptosTokenBridgeAddress := None\<rparr>)
        (example_world\<lparr>w_http := answers_from 0 ''0xABC''\<rparr>) example_request 30 2000) =
      Inr \<lparr>success = False, sourceTx = None, attestationId = None, destinationTx = None,
            error = Some missing_config_message\<rparr>"
    by (simp only: T2c fst_conv)
  note T2b = T2[THEN conjunct2, THEN conjunct1, THEN mp, OF res]
  show ?thesis
    by (intro conjI hk ht hc s1 s2 s3 s4 T1[THEN conjunct1] T1[THEN conjunct2] T2a T2b T2c)
qed

section \<open>The sequence number 0\<close>

lemma txHash_loop_same_http:
  "w_http w' = w_http w \<Longrightarrow>
     txHash_loop w' h c maxRetries retries b = txHash_loop w h c maxRetries retries b"
proof (induction w h c maxRetries retries b rule: txHash_loop.induct)
  case (1 w h c maxRetries retries b)
  have f: "fetchVaaByTxHash w' (Suc retries) h c = fetchVaaByTxHash w (Suc retries) h c"
    using "1.prems" by (simp add: fetchVaaByTxHash_def)
  show ?case
    using "1.IH" "1.prems"
    by (simp only: txHash_loop.simps[of w' h c maxRetries retries b]
          txHash_loop.simps[of w h c maxRetries retries b] f)
       (auto split: sum.splits)
qed

lemma allowance_retry_same_allowance:
  "w_allowance w' = w_allowance w \<Longrightarrow>
     allowance_retry w' address amt retries al = allowance_retry w address amt retries al"
proof (induction w address amt retries al rule: allowance_retry.induct)
  case (1 w address amt retries al)
  show ?case
    using "1.IH" "1.prems"
    by (simp only: allowance_retry.simps[of w' address amt retries al]
          allowance_retry.simps[of w address amt retries al])
       (auto split: sum.splits)
qed

lemma txHash_loop_frame:
  "txHash_loop (w\<lparr>w_transferWait := x\<rparr>) h c maxRetries retries b =
     txHash_loop w h c maxRetries retries b"
  by (rule txHash_loop_same_http) simp

lemma pollVaa_loop_frame:
  "pollVaa_loop (w\<lparr>w_transferWait := x\<rparr>) s c a maxRetries retries b =
     pollVaa_loop w s c a maxRetries retries b"
  by (rule pollVaa_loop_same_http) simp

lemma allowance_retry_frame:
  "allowance_retry (w\<lparr>w_transferWait := x\<rparr>) address amt retries al =
     allowance_retry w address amt retries al"
  by (rule allowance_retry_same_allowance) simp

lemma ensure_allowance_frame:
  "ensure_allowance (w\<lparr>w_transferWait := x\<rparr>) address amt = ensure_allowance w address amt"
  by (simp add: ensure_allowance_def allowance_retry_frame cong: if_cong option.case_cong)

lemma get_vaa_frame:
  "get_vaa (w\<lparr>w_transferWait := x\<rparr>) tr maxRetries initialBackoff =
     get_vaa w tr maxRetries initialBackoff"
  by (simp add: get_vaa_def pollVaa_def fetchVaaByTxHash_def txHash_loop_frame pollVaa_loop_frame
        cong: if_cong)

lemma complete_transfer_frame:
  "complete_transfer config (w\<lparr>w_transferWait := x\<rparr>) h vaa recipient =
     complete_transfer config w h vaa recipient"
  by (simp add: complete_transfer_def submitTokenBridgeVaa_def cong: if_cong)

lemma submit_transfer_receipt:
  "rstatus rc = 1 \<Longrightarrow>
   submit_transfer (w\<lparr>w_transferWait := Inr (Some rc)\<rparr>) u amt r =
     (case w_transferTokens w of
        Inl e \<Rightarrow> (Inl e, [TransferTokens u amt aptosChainId (''0x'' @ recipientBytes32 r) 0 0])
      | Inr h \<Rightarrow>
          (Inr \<lparr>txHash = h,
                sequence = (case find_sequence (logs rc) of None \<Rightarrow> 0 | Some s \<Rightarrow> s)\<rparr>,
           [TransferTokens u amt aptosChainId (''0x'' @ recipientBytes32 r) 0 0, WaitTransfer h]))"
  by (cases "w_transferTokens w")
     (simp_all add: submit_transfer_def bind_tr_call_Inl bind_tr_call_Inr split: option.splits)

lemma try_block_receipt:
  assumes "(case find_sequence ls of None \<Rightarrow> 0 | Some s \<Rightarrow> s) =
           (case find_sequence ls' of None \<Rightarrow> 0 | Some s \<Rightarrow> s)"
  shows "try_block config (w\<lparr>w_transferWait := Inr (Some \<lparr>rstatus = 1, logs = ls\<rparr>)\<rparr>) request
           maxRetries initialBackoff =
         try_block config (w\<lparr>w_transferWait := Inr (Some \<lparr>rstatus = 1, logs = ls'\<rparr>)\<rparr>) request
           maxRetries initialBackoff"
  using assms
  by (simp add: try_block_def transferUsdcViaWormhole_def insufficient_eth_message_def
        insufficient_usdc_message_def ensure_allowance_frame get_vaa_frame complete_transfer_frame
        submit_transfer_receipt Let_def cong: if_cong sum.case_cong)

lemma get_vaa_zero_first:
  "sequence tr = 0 \<Longrightarrow>
     \<exists>rest. snd (get_vaa w tr maxRetries initialBackoff) =
       Lookup (ByTxHash baseSepoliaChainId (txHash tr)) # rest"
  by (cases "fetchVaaByTxHash w 0 (txHash tr) baseSepoliaChainId")
     (simp_all add: get_vaa_def bind_tr_call_Inl bind_tr_call_Inr)

lemma complete_transfer_no_lookups: "lookups (snd (complete_transfer config w h vaa recipient)) = []"
proof -
  have "set (lookups (snd (complete_transfer config w h vaa recipient))) = {}"
    using complete_transfer_events[of config w h vaa recipient]
    by (auto simp: set_lookups)
  then show ?thesis
    by simp
qed

lemma lookups_zero_path:
  assumes "w_getEvmSigner w = Inr baseAddress" and "w_getAptosSigner w = Inr aptosAddress"
    and "fst (transferUsdcViaWormhole w baseAddress (transferAmount request)
                (or_else (recipientAddress request) aptosAddress) None) = Inr tr"
    and "sequence tr = 0"
  shows "lookups (snd (transferUsdcWithWormholeOnly config w request maxRetries initialBackoff)) =
           lookups (snd (get_vaa w tr maxRetries initialBackoff))"
  using assms source_trace_no_lookups[of w baseAddress "transferAmount request"
            "or_else (recipientAddress request) aptosAddress" None]
  by (simp add: orchestrator_trace try_block_def Let_def snd_bind_tr lookups_append
        complete_transfer_no_lookups split: sum.splits)


text \<open>
  C10. Sequence 0 means "no identifier". The source transfer returns sequence 0 when
  no log of the receipt carries a sequence number. Whenever the source transfer returns
  sequence 0, the orchestrator looks the attestation up by the transaction hash, at
  least once, and never by sequence number. And a receipt whose event carries the
  genuine sequence number 0 gives the same run, result and trace, as a receipt with no
  logs at all.
\<close>

theorem sequence_zero_is_sentinel:
  "(w_transferTokens w = Inr h \<and> w_transferWait w = Inr (Some rc) \<and> rstatus rc = 1
      \<and> find_sequence (logs rc) = None \<longrightarrow>
      submit_transfer w u amt recipient =
        (Inr \<lparr>txHash = h, sequence = 0\<rparr>,
         [TransferTokens u amt aptosChainId (''0x'' @ recipientBytes32 recipient) 0 0,
          WaitTransfer h]))
   \<and> (w_getEvmSigner w1 = Inr baseAddress \<and> w_getAptosSigner w1 = Inr aptosAddress
       \<and> fst (transferUsdcViaWormhole w1 baseAddress (transferAmount request)
                 (or_else (recipientAddress request) aptosAddress) None) = Inr tr
       \<and> sequence tr = 0 \<longrightarrow>
       lookups (snd (transferUsdcWithWormholeOnly config w1 request maxRetries initialBackoff))
         \<noteq> []
       \<and> set (lookups (snd (transferUsdcWithWormholeOnly config w1 request maxRetries
                               initialBackoff))) = {ByTxHash baseSepoliaChainId (txHash tr)}
       \<and> filter is_by_sequence
           (lookups (snd (transferUsdcWithWormholeOnly config w1 request maxRetries
                            initialBackoff))) = [])
   \<and> (find_sequence ls = Some 0 \<longrightarrow>
       transferUsdcWithWormholeOnly config2
         (w2\<lparr>w_transferWait := Inr (Some \<lparr>rstatus = 1, logs = ls\<rparr>)\<rparr>) request2 maxRetries2
         initialBackoff2 =
       transferUsdcWithWormholeOnly config2
         (w2\<lparr>w_transferWait := Inr (Some \<lparr>rstatus = 1, logs = []\<rparr>)\<rparr>) request2 maxRetries2
         initialBackoff2)"
proof (intro conjI impI)
  assume a: "w_transferTokens w = Inr h \<and> w_transferWait w = Inr (Some rc) \<and> rstatus rc = 1
      \<and> find_sequence (logs rc) = None"
  then show "submit_transfer w u amt recipient =
        (Inr \<lparr>txHash = h, sequence = 0\<rparr>,
         [TransferTokens u amt aptosChainId (''0x'' @ recipientBytes32 recipient) 0 0,
          WaitTransfer h])"
    by (simp add: submit_transfer_def bind_tr_call_Inr)
next
  assume a: "w_getEvmSigner w1 = Inr baseAddress \<and> w_getAptosSigner w1 = Inr aptosAddress
       \<and> fst (transferUsdcViaWormhole w1 baseAddress (transferAmount request)
                 (or_else (recipientAddress request) aptosAddress) None) = Inr tr
       \<and> sequence tr = 0"
  then have zero: "sequence tr = 0"
    by simp
  have eq: "lookups (snd (transferUsdcWithWormholeOnly config w1 request maxRetries
                            initialBackoff)) =
            lookups (snd (get_vaa w1 tr maxRetries initialBackoff))"
    by (rule lookups_zero_path[OF a[THEN conjunct1] a[THEN conjunct2, THEN conjunct1]
          a[THEN conjunct2, THEN conjunct2, THEN conjunct1] zero])
  obtain rest where first: "snd (get_vaa w1 tr maxRetries initialBackoff) =
      Lookup (ByTxHash baseSepoliaChainId (txHash tr)) # rest"
    using get_vaa_zero_first[OF zero] by blast
  have only: "set (lookups (snd (get_vaa w1 tr maxRetries initialBackoff))) =
                {ByTxHash baseSepoliaChainId (txHash tr)}"
  proof
    show "set (lookups (snd (get_vaa w1 tr maxRetries initialBackoff)))
            \<subseteq> {ByTxHash baseSepoliaChainId (txHash tr)}"
      using get_vaa_zero_events[OF zero, of w1 maxRetries initialBackoff]
      by (auto simp: set_lookups)
    show "{ByTxHash baseSepoliaChainId (txHash tr)}
            \<subseteq> set (lookups (snd (get_vaa w1 tr maxRetries initialBackoff)))"
      by (simp add: first)
  qed
  show "lookups (snd (transferUsdcWithWormholeOnly config w1 request maxRetries initialBackoff))
         \<noteq> []"
    by (simp add: eq first)
  show "set (lookups (snd (transferUsdcWithWormholeOnly config w1 request maxRetries
                               initialBackoff))) = {ByTxHash baseSepoliaChainId (txHash tr)}"
    by (simp only: eq only)
  show "filter is_by_sequence
           (lookups (snd (transferUsdcWithWormholeOnly config w1 request maxRetries
                            initialBackoff))) = []"
    unfolding eq filter_empty_conv only by simp
next
  assume a: "find_sequence ls = Some 0"
  have "try_block config2 (w2\<lparr>w_transferWait := Inr (Some \<lparr>rstatus = 1, logs = ls\<rparr>)\<rparr>) request2
          maxRetries2 initialBackoff2 =
        try_block config2 (w2\<lparr>w_transferWait := Inr (Some \<lparr>rstatus = 1, logs = []\<rparr>)\<rparr>) request2
          maxRetries2 initialBackoff2"
  proof (rule try_block_receipt)
    have "find_sequence [] = None"
      by (simp add: find_sequence_def)
    then show "(case find_sequence ls of None \<Rightarrow> 0 | Some s \<Rightarrow> s) =
               (case find_sequence [] of None \<Rightarrow> 0 | Some s \<Rightarrow> s)"
      by (simp only: a option.case)
  qed
  then show "transferUsdcWithWormholeOnly config2
         (w2\<lparr>w_transferWait := Inr (Some \<lparr>rstatus = 1, logs = ls\<rparr>)\<rparr>) request2 maxRetries2
         initialBackoff2 =
       transferUsdcWithWormholeOnly config2
         (w2\<lparr>w_transferWait := Inr (Some \<lparr>rstatus = 1, logs = []\<rparr>)\<rparr>) request2 maxRetries2
         initialBackoff2"
    by (simp add: transferUsdcWithWormholeOnly_def)
qed

theorem sequence_zero_is_sentinel_witness:
  "w_transferTokens fallback_world = Inr ''0x5EED''
   \<and> w_transferWait fallback_world = Inr (Some \<lparr>rstatus = 1, logs = []\<rparr>)
   \<and> rstatus \<lparr>rstatus = 1, logs = []\<rparr> = 1
   \<and> find_sequence (logs \<lparr>rstatus = 1, logs = []\<rparr>) = None
   \<and> submit_transfer fallback_world defaultUsdcAddress 1000000 ''0xA11ce'' =
       (Inr \<lparr>txHash = ''0x5EED'', sequence = 0\<rparr>,
        [TransferTokens defaultUsdcAddress 1000000 aptosChainId
           (''0x'' @ recipientBytes32 ''0xA11ce'') 0 0,
         WaitTransfer ''0x5EED''])
   \<and> w_getEvmSigner fallback_world = Inr ''0xB0b''
   \<and> w_getAptosSigner fallback_world = Inr ''0xA11ce''
   \<and> fst (transferUsdcViaWormhole fallback_world ''0xB0b'' (transferAmount example_request)
             (or_else (recipientAddress example_request) ''0xA11ce'') None) =
       Inr \<lparr>txHash = ''0x5EED'', sequence = 0\<rparr>
   \<and> sequence \<lparr>txHash = ''0x5EED'', sequence = 0\<rparr> = 0
   \<and> lookups (snd (transferUsdcWithWormholeOnly example_config fallback_world example_request
                     5 2000)) \<noteq> []
   \<and> set (lookups (snd (transferUsdcWithWormholeOnly example_config fallback_world
                          example_request 5 2000))) = {ByTxHash baseSepoliaChainId ''0x5EED''}
   \<and> filter is_by_sequence
       (lookups (snd (transferUsdcWithWormholeOnly example_config fallback_world
                        example_request 5 2000))) = []
   \<and> find_sequence [transfer_log 0] = Some 0
   \<and> transferUsdcWithWormholeOnly example_config
       (example_world\<lparr>w_transferWait := Inr (Some \<lparr>rstatus = 1, logs = [transfer_log 0]\<rparr>)\<rparr>)
       example_request 5 2000 =
     transferUsdcWithWormholeOnly example_config
       (example_world\<lparr>w_transferWait := Inr (Some \<lparr>rstatus = 1, logs = []\<rparr>)\<rparr>)
       example_request 5 2000"
proof -
  have a1: "w_transferTokens fallback_world = Inr ''0x5EED''"
    and a2: "w_transferWait fallback_world = Inr (Some \<lparr>rstatus = 1, logs = []\<rparr>)"
    and b1: "w_getEvmSigner fallback_world = Inr ''0xB0b''"
    and b2: "w_getAptosSigner fallback_world = Inr ''0xA11ce''"
    by (simp_all add: fallback_world_def example_world_def receipt_with_def)
  have a3: "rstatus \<lparr>rstatus = 1, logs = []\<rparr> = 1"
    and a4: "find_sequence (logs \<lparr>rstatus = 1, logs = []\<rparr>) = None"
    by (simp_all add: find_sequence_def)
  have b3: "fst (transferUsdcViaWormhole fallback_world ''0xB0b'' (transferAmount example_request)
             (or_else (recipientAddress example_request) ''0xA11ce'') None) =
       Inr \<lparr>txHash = ''0x5EED'', sequence = 0\<rparr>"
    by (simp add: fallback_source)
  have b4: "sequence \<lparr>txHash = ''0x5EED'', sequence = 0\<rparr> = 0"
    by simp
  have c1: "find_sequence [transfer_log 0] = Some 0"
    by (simp add: find_sequence_def transfer_log_def)
  note T = sequence_zero_is_sentinel[where w = fallback_world and h = "''0x5EED''"
      and rc = "\<lparr>rstatus = 1, logs = []\<rparr>" and u = defaultUsdcAddress and amt = 1000000
      and recipient = "''0xA11ce''" and ?w1.0 = fallback_world and baseAddress = "''0xB0b''"
      and aptosAddress = "''0xA11ce''" and request = example_request
      and tr = "\<lparr>txHash = ''0x5EED'', sequence = 0\<rparr>" and config = example_config
      and maxRetries = 5 and initialBackoff = 2000 and ls = "[transfer_log 0]"
      and ?config2.0 = example_config and ?w2.0 = example_world and ?request2.0 = example_request
      and ?maxRetries2.0 = 5 and ?initialBackoff2.0 = 2000]
  note T1 = T[THEN conjunct1, THEN mp, OF conjI[OF a1 conjI[OF a2 conjI[OF a3 a4]]]]
  note T2 = T[THEN conjunct2, THEN conjunct1, THEN mp, OF conjI[OF b1 conjI[OF b2 conjI[OF b3 b4]]]]
  note T3 = T[THEN conjunct2, THEN conjunct2, THEN mp, OF c1]
  have t: "txHash \<lparr>txHash = ''0x5EED'', sequence = 0\<rparr> = ''0x5EED''"
    by simp
  show ?thesis
    by (intro conjI a1 a2 a3 a4 b1 b2 b3 b4 c1 T1 T2[THEN conjunct1]
          T2[THEN conjunct2, THEN conjunct1, unfolded t] T2[THEN conjunct2, THEN conjunct2] T3)
qed

end
